theory Spec2Isabelle
  imports Complex_Main
begin

section \<open>MagneticHeroText: the magnetic hero-text effect\<close>

text \<open>
  A shallow embedding of the class \<open>MagneticHeroText\<close>. The instance (\<open>this\<close>) is a
  record; the page it runs on (environment, document, listeners, the frame queue and the
  timers of the host) is a second record, and every method is a function on the pair.
  A span is a reference into the list of spans of the page, so that the \<open>words\<close> array
  and the container's children share the elements they name.

  JavaScript numbers are idealised as real numbers: every coordinate is a finite number,
  and the arithmetic, \<open>Math.sqrt\<close>, \<open>Math.cos\<close> and \<open>Math.sin\<close> are the exact real
  functions (no rounding, no NaN, no signed zero). The program computes in IEEE doubles,
  and \<open>Math.atan2\<close>, \<open>Math.cos\<close> and \<open>Math.sin\<close> are approximations that the
  language leaves to the platform. The properties of the force law stated here are
  therefore only those that rounding does not touch: the guard that returns literal
  zeros, and pointers on the horizontal line through a word's centre, at or to the
  right of it, where the angle is 0, its cosine 1 and its sine 0. Nothing is stated
  about the Euclidean length or the angle of a displacement at other pointer positions.
\<close>

subsection \<open>Numbers and the platform's Math functions\<close>

definition Math_sqrt :: "real \<Rightarrow> real" where
  "Math_sqrt x = sqrt x"

definition Math_cos :: "real \<Rightarrow> real" where
  "Math_cos a = cos a"

definition Math_sin :: "real \<Rightarrow> real" where
  "Math_sin a = sin a"

text \<open>
  \<open>Math.atan2(y, x)\<close> as ECMAScript specifies it on finite numbers: the angle in
  \<open>(-\<pi>, \<pi>]\<close> of the point \<open>(x, y)\<close>, and \<open>0\<close> at the origin.
\<close>

definition Math_atan2 :: "real \<Rightarrow> real \<Rightarrow> real" where
  "Math_atan2 y x =
     (if 0 < x then arctan (y / x)
      else if x < 0 then (if 0 \<le> y then arctan (y / x) + pi else arctan (y / x) - pi)
      else if 0 < y then pi / 2
      else if y < 0 then - (pi / 2)
      else 0)"

subsection \<open>Configuration\<close>

text \<open>
  The constructor's argument: each recognised key is present with a value or absent.
\<close>

record raw_options =
  raw_maxDistance :: "real option"
  raw_maxDisplacement :: "real option"
  raw_springEasing :: "string option"
  raw_activeDuration :: "real option"
  raw_resetDuration :: "real option"

record options =
  maxDistance :: real
  maxDisplacement :: real
  springEasing :: string
  activeDuration :: real
  resetDuration :: real

text \<open>\<open>v || d\<close> on an optional number: an absent key and the number 0 are falsy.\<close>

definition num_or :: "real option \<Rightarrow> real \<Rightarrow> real" where
  "num_or v d = (case v of None \<Rightarrow> d | Some x \<Rightarrow> if x = 0 then d else x)"

definition str_or :: "string option \<Rightarrow> string \<Rightarrow> string" where
  "str_or v d = (case v of None \<Rightarrow> d | Some x \<Rightarrow> if x = [] then d else x)"

text \<open>The trailing \<open>...options\<close> writes every key that is present over the default.\<close>

definition spread :: "'a option \<Rightarrow> 'a \<Rightarrow> 'a" where
  "spread v x = (case v of None \<Rightarrow> x | Some y \<Rightarrow> y)"

definition make_options :: "raw_options \<Rightarrow> options" where
  "make_options raw =
     \<lparr> maxDistance = spread (raw_maxDistance raw) (num_or (raw_maxDistance raw) 200),
       maxDisplacement = spread (raw_maxDisplacement raw) (num_or (raw_maxDisplacement raw) 25),
       springEasing = spread (raw_springEasing raw)
         (str_or (raw_springEasing raw) ''cubic-bezier(0.34, 1.56, 0.64, 1)''),
       activeDuration = spread (raw_activeDuration raw) (num_or (raw_activeDuration raw) 150),
       resetDuration = spread (raw_resetDuration raw) (num_or (raw_resetDuration raw) 300) \<rparr>"

definition no_options :: raw_options where
  "no_options =
     \<lparr> raw_maxDistance = None, raw_maxDisplacement = None, raw_springEasing = None,
       raw_activeDuration = None, raw_resetDuration = None \<rparr>"

subsection \<open>Cached geometry and the force law\<close>

record word_rect =
  left :: real
  top' :: real
  width :: real
  height :: real
  centerX :: real
  centerY :: real

record translation =
  translateX :: real
  translateY :: real

text \<open>The distance from the cursor to the word's centre.\<close>

definition distance :: "word_rect \<Rightarrow> real \<Rightarrow> real \<Rightarrow> real" where
  "distance wordRect mouseX mouseY =
     (let deltaX = mouseX - centerX wordRect;
          deltaY = mouseY - centerY wordRect
      in Math_sqrt (deltaX * deltaX + deltaY * deltaY))"

definition calculateMagneticForce :: "options \<Rightarrow> word_rect \<Rightarrow> real \<Rightarrow> real \<Rightarrow> translation" where
  "calculateMagneticForce opts wordRect mouseX mouseY =
     (let deltaX = mouseX - centerX wordRect;
          deltaY = mouseY - centerY wordRect;
          dist = distance wordRect mouseX mouseY
      in if dist \<ge> maxDistance opts then \<lparr> translateX = 0, translateY = 0 \<rparr>
         else
           let force = 1 - dist / maxDistance opts;
               displacement = force * maxDisplacement opts;
               angle = Math_atan2 deltaY deltaX
           in \<lparr> translateX = Math_cos angle * displacement,
                translateY = Math_sin angle * displacement \<rparr>)"

text \<open>The Euclidean length of a displacement vector.\<close>

definition magnitude :: "translation \<Rightarrow> real" where
  "magnitude t = sqrt (translateX t * translateX t + translateY t * translateY t)"

text \<open>A word rectangle centred at the origin, and the default configuration.\<close>

definition origin_rect :: word_rect where
  "origin_rect = \<lparr> left = -20, top' = -10, width = 40, height = 20, centerX = 0, centerY = 0 \<rparr>"

definition default_options :: options where
  "default_options = make_options no_options"

text \<open>Two configurations the constructor accepts: a negative displacement, and a field of radius 0.\<close>

definition repelling_options :: options where
  "repelling_options = make_options (no_options\<lparr> raw_maxDisplacement := Some (- 25) \<rparr>)"

definition empty_field_options :: options where
  "empty_field_options = make_options (no_options\<lparr> raw_maxDistance := Some 0 \<rparr>)"

subsection \<open>Strings: \<open>split(' ')\<close> and \<open>join(' ')\<close>\<close>

text \<open>
  A string is the list of its code units. \<open>split\<close> cuts at every occurrence of the
  separator and always returns at least one piece (the empty string gives one empty
  piece); \<open>join\<close> of no piece is the empty string.
\<close>

fun split_on :: "char \<Rightarrow> string \<Rightarrow> string list" where
  "split_on sep [] = [[]]"
| "split_on sep (c # cs) =
     (if c = sep then [] # split_on sep cs
      else (case split_on sep cs of [] \<Rightarrow> [[c]] | w # ws \<Rightarrow> (c # w) # ws))"

fun join_with :: "string \<Rightarrow> string list \<Rightarrow> string" where
  "join_with sep [] = []"
| "join_with sep [w] = w"
| "join_with sep (w # ws) = w @ sep @ join_with sep ws"

subsection \<open>The page: document, environment and the host's scheduler\<close>

datatype style_transform =
    Unset
  | Translate3d_px real real  \<comment> \<open>\<open>translate3d(${x}px, ${y}px, 0)\<close>\<close>
  | Translate3d_origin        \<comment> \<open>\<open>translate3d(0, 0, 0)\<close>\<close>

record span_element =
  className :: string
  textContent :: string
  activeClass :: bool
  transform :: style_transform

text \<open>A child of the container: a text node, or a span created by the effect.\<close>

datatype node = TextNode string | SpanNode nat

record dom_rect =
  dom_left :: real
  dom_top :: real
  dom_width :: real
  dom_height :: real

datatype query_result = QSyntaxError | QNull | QElement

datatype js_error = SyntaxError | TypeError

datatype frame_callback = FrameUpdate real real
  \<comment> \<open>the closure of \<open>handleMouseMove\<close>, holding the event's \<open>clientX\<close> and \<open>clientY\<close>\<close>

datatype timer_callback = ResizeSettle | ActiveClear

record browser =
  ontouchstart :: bool          \<comment> \<open>\<open>'ontouchstart' in window\<close>\<close>
  maxTouchPoints :: int
  innerWidth :: int
  prefersReducedMotion :: bool  \<comment> \<open>\<open>matchMedia('(prefers-reduced-motion: reduce)').matches\<close>\<close>
  scrollX :: real
  scrollY :: real
  boundingClientRect :: "nat \<Rightarrow> dom_rect"
  selectorMatch :: query_result \<comment> \<open>what \<open>document.querySelector\<close> does on the selector\<close>
  inHeroSection :: bool         \<comment> \<open>the container has an ancestor \<open>.hero-section\<close>\<close>
  childNodes :: "node list"     \<comment> \<open>the container's children\<close>
  magneticEnabled :: bool       \<comment> \<open>the container's class \<open>magnetic-enabled\<close>\<close>
  spans :: "span_element list"  \<comment> \<open>the spans created so far; a reference is an index\<close>
  mousemoveListener :: bool
  mouseleaveListener :: bool
  resizeListener :: bool
  motionListener :: bool
  animationFrames :: "(nat \<times> frame_callback) list"
  rafCounter :: nat
  timers :: "(nat \<times> real \<times> timer_callback) list"
  timerCounter :: nat
  console :: "string list"
  uncaught :: "js_error list"

datatype element_ref = Container

record magnetic_hero_text =
  selector :: string
  opts :: options
  element :: "element_ref option"
  words :: "nat list"
  wordRects :: "word_rect list"
  rafId :: "nat option"
  isActive :: bool
  resizeTimeout :: "nat option"

type_synonym world = "magnetic_hero_text \<times> browser"

text \<open>Host functions. A handle is a positive number, never reused.\<close>

definition requestAnimationFrame :: "frame_callback \<Rightarrow> browser \<Rightarrow> nat \<times> browser" where
  "requestAnimationFrame cb b =
     (let h = Suc (rafCounter b)
      in (h, b\<lparr> rafCounter := h, animationFrames := animationFrames b @ [(h, cb)] \<rparr>))"

definition cancelAnimationFrame :: "nat \<Rightarrow> browser \<Rightarrow> browser" where
  "cancelAnimationFrame h b = b\<lparr> animationFrames := filter (\<lambda>(k, cb). k \<noteq> h) (animationFrames b) \<rparr>"

definition setTimeout :: "timer_callback \<Rightarrow> real \<Rightarrow> browser \<Rightarrow> nat \<times> browser" where
  "setTimeout cb delay b =
     (let h = Suc (timerCounter b)
      in (h, b\<lparr> timerCounter := h, timers := timers b @ [(h, delay, cb)] \<rparr>))"

definition clearTimeout :: "nat option \<Rightarrow> browser \<Rightarrow> browser" where
  "clearTimeout handle b =
     (case handle of None \<Rightarrow> b
      | Some h \<Rightarrow> b\<lparr> timers := filter (\<lambda>(k, d, cb). k \<noteq> h) (timers b) \<rparr>)"

text \<open>\<open>if (this.rafId)\<close>: \<open>null\<close> and 0 are falsy.\<close>

definition truthy :: "nat option \<Rightarrow> bool" where
  "truthy handle = (case handle of None \<Rightarrow> False | Some h \<Rightarrow> h \<noteq> 0)"

definition createElement :: "browser \<Rightarrow> nat \<times> browser" where
  "createElement b =
     (length (spans b),
      b\<lparr> spans := spans b @
        [\<lparr> className = [], textContent = [], activeClass = False, transform = Unset \<rparr>] \<rparr>)"

text \<open>
  A change to the span a reference names. Every reference the instance holds comes from
  \<open>createElement\<close>, so it names a span of the list; elsewhere the update changes nothing.
\<close>

definition update_span :: "nat \<Rightarrow> (span_element \<Rightarrow> span_element) \<Rightarrow> browser \<Rightarrow> browser" where
  "update_span r f b = b\<lparr> spans := (spans b)[r := f (spans b ! r)] \<rparr>"

definition node_text :: "browser \<Rightarrow> node \<Rightarrow> string" where
  "node_text b n =
     (case n of TextNode s \<Rightarrow> s
      | SpanNode r \<Rightarrow> if r < length (spans b) then textContent (spans b ! r) else [])"

text \<open>The container's \<open>textContent\<close>: read, and assigned.\<close>

definition element_text :: "browser \<Rightarrow> string" where
  "element_text b = concat (map (node_text b) (childNodes b))"

definition set_element_text :: "string \<Rightarrow> browser \<Rightarrow> browser" where
  "set_element_text s b = b\<lparr> childNodes := (if s = [] then [] else [TextNode s]) \<rparr>"

subsection \<open>The methods of the class\<close>

definition shouldInitialize :: "browser \<Rightarrow> bool" where
  "shouldInitialize b =
     (if ontouchstart b \<or> maxTouchPoints b > 0 then False
      else if innerWidth b \<le> 1024 then False
      else if prefersReducedMotion b then False
      else True)"

text \<open>
  The body of the \<open>forEach\<close> of \<open>splitTextIntoWords\<close>, from the word at \<open>index\<close> on;
  \<open>n\<close> is \<open>words.length\<close>.
\<close>

fun add_word_spans :: "nat \<Rightarrow> nat \<Rightarrow> string list \<Rightarrow> world \<Rightarrow> world" where
  "add_word_spans n index [] w = w"
| "add_word_spans n index (word # rest) (this, b) =
     (let (wordSpan, b1) = createElement b;
          b2 = update_span wordSpan
                 (\<lambda>e. e\<lparr> className := ''word-magnetic'', textContent := word \<rparr>) b1;
          b3 = b2\<lparr> childNodes := childNodes b2 @ [SpanNode wordSpan] \<rparr>;
          this1 = this\<lparr> words := words this @ [wordSpan] \<rparr>;
          b6 = (if int index < int n - 1 then
                  (let (spaceSpan, b4) = createElement b3;
                       b5 = update_span spaceSpan
                              (\<lambda>e. e\<lparr> className := ''word-space'', textContent := '' '' \<rparr>) b4
                   in b5\<lparr> childNodes := childNodes b5 @ [SpanNode spaceSpan] \<rparr>)
                else b3)
      in add_word_spans n (Suc index) rest (this1, b6))"

definition splitTextIntoWords :: "world \<Rightarrow> world" where
  "splitTextIntoWords w =
     (case w of (this, b) \<Rightarrow>
        let originalText = element_text b;
            ws = split_on CHR '' '' originalText;
            b1 = set_element_text [] b;
            b2 = b1\<lparr> magneticEnabled := True \<rparr>
        in add_word_spans (length ws) 0 ws (this, b2))"

definition cacheBoundingRects :: "world \<Rightarrow> world" where
  "cacheBoundingRects w =
     (case w of (this, b) \<Rightarrow>
        (this\<lparr> wordRects :=
           map (\<lambda>word. let rect = boundingClientRect b word
                       in \<lparr> left = dom_left rect + scrollX b,
                            top' = dom_top rect + scrollY b,
                            width = dom_width rect,
                            height = dom_height rect,
                            centerX = dom_left rect + scrollX b + dom_width rect / 2,
                            centerY = dom_top rect + scrollY b + dom_height rect / 2 \<rparr>)
               (words this) \<rparr>, b))"

definition setupEventListeners :: "world \<Rightarrow> world" where
  "setupEventListeners w =
     (case w of (this, b) \<Rightarrow>
        let b1 = (if inHeroSection b
                  then b\<lparr> mousemoveListener := True, mouseleaveListener := True \<rparr> else b)
        in (this, b1\<lparr> resizeListener := True \<rparr>))"

definition setupReducedMotionListener :: "world \<Rightarrow> world" where
  "setupReducedMotionListener w = (case w of (this, b) \<Rightarrow> (this, b\<lparr> motionListener := True \<rparr>))"

definition not_found_warning :: "string \<Rightarrow> string" where
  "not_found_warning sel =
     ''MagneticHeroText: Element not found for selector '' @ [CHR 0x22] @ sel @ [CHR 0x22]"

definition init :: "world \<Rightarrow> js_error + world" where
  "init w =
     (case w of (this, b) \<Rightarrow>
        if \<not> shouldInitialize b then Inr (this, b)
        else (case selectorMatch b of
                QSyntaxError \<Rightarrow> Inl SyntaxError
              | QNull \<Rightarrow> Inr (this, b\<lparr> console := console b @ [not_found_warning (selector this)] \<rparr>)
              | QElement \<Rightarrow>
                  Inr (setupReducedMotionListener (setupEventListeners (cacheBoundingRects
                        (splitTextIntoWords (this\<lparr> element := Some Container \<rparr>, b)))))))"

text \<open>The fields the constructor sets before it calls \<open>init\<close>.\<close>

definition initial_state :: "string \<Rightarrow> raw_options \<Rightarrow> magnetic_hero_text" where
  "initial_state sel raw =
     \<lparr> selector = sel, opts = make_options raw, element = None, words = [],
       wordRects = [], rafId = None, isActive = False, resizeTimeout = None \<rparr>"

definition new_MagneticHeroText :: "string \<Rightarrow> raw_options \<Rightarrow> browser \<Rightarrow> js_error + world" where
  "new_MagneticHeroText sel raw b = init (initial_state sel raw, b)"

definition animateWord :: "nat \<Rightarrow> real \<Rightarrow> real \<Rightarrow> browser \<Rightarrow> browser" where
  "animateWord word x y b = update_span word (\<lambda>e. e\<lparr> transform := Translate3d_px x y \<rparr>) b"

text \<open>
  The \<open>forEach\<close> of \<open>updateWordPositions\<close>, from the word at \<open>index\<close> on. Destructuring
  \<open>this.wordRects[index]\<close> throws a TypeError when the index is out of range; the words
  before it have been moved by then.
\<close>

fun update_words_from ::
  "options \<Rightarrow> word_rect list \<Rightarrow> real \<Rightarrow> real \<Rightarrow> nat \<Rightarrow> nat list \<Rightarrow> browser \<Rightarrow> js_error option \<times> browser"
where
  "update_words_from os rects mouseX mouseY index [] b = (None, b)"
| "update_words_from os rects mouseX mouseY index (word # rest) b =
     (if index < length rects then
        (let t = calculateMagneticForce os (rects ! index) mouseX mouseY
         in update_words_from os rects mouseX mouseY (Suc index) rest
              (animateWord word (translateX t) (translateY t) b))
      else (Some TypeError, b))"

definition updateWordPositions :: "real \<Rightarrow> real \<Rightarrow> world \<Rightarrow> js_error option \<times> browser" where
  "updateWordPositions mouseX mouseY w =
     (case w of (this, b) \<Rightarrow>
        update_words_from (opts this) (wordRects this) mouseX mouseY 0 (words this) b)"

text \<open>\<open>this.words.forEach(word => ...)\<close>, where the body changes the word's span by \<open>f\<close>.\<close>

definition for_each_word :: "(span_element \<Rightarrow> span_element) \<Rightarrow> nat list \<Rightarrow> browser \<Rightarrow> browser" where
  "for_each_word f ws b = foldl (\<lambda>b' word. update_span word f b') b ws"

definition handleMouseMove :: "real \<Rightarrow> real \<Rightarrow> world \<Rightarrow> world" where
  "handleMouseMove clientX clientY w =
     (case w of (this, b) \<Rightarrow>
        if truthy (rafId this) then (this, b)
        else
          let (h, b1) = requestAnimationFrame (FrameUpdate clientX clientY) b;
              this1 = this\<lparr> rafId := Some h \<rparr>
          in if \<not> isActive this1
             then (this1\<lparr> isActive := True \<rparr>,
                   for_each_word (\<lambda>e. e\<lparr> activeClass := True \<rparr>) (words this1) b1)
             else (this1, b1))"

text \<open>
  The frame callback: it reads the scroll offsets when it runs, and the pointer from the
  event it closed over. When the update throws, the assignment after it does not run.
\<close>

definition run_frame_callback :: "frame_callback \<Rightarrow> world \<Rightarrow> world" where
  "run_frame_callback cb w =
     (case (cb, w) of (FrameUpdate clientX clientY, (this, b)) \<Rightarrow>
        (case updateWordPositions (clientX + scrollX b) (clientY + scrollY b) (this, b) of
           (None, b1) \<Rightarrow> (this\<lparr> rafId := None \<rparr>, b1)
         | (Some err, b1) \<Rightarrow> (this, b1\<lparr> uncaught := uncaught b1 @ [err] \<rparr>)))"

definition reset :: "world \<Rightarrow> world" where
  "reset w =
     (case w of (this, b) \<Rightarrow>
        let b1 = for_each_word (\<lambda>e. e\<lparr> transform := Translate3d_origin \<rparr>) (words this) b
        in if isActive this
           then (this, snd (setTimeout ActiveClear (resetDuration (opts this)) b1))
           else (this, b1))"

text \<open>\<open>if (this.rafId) { cancelAnimationFrame(this.rafId); this.rafId = null; }\<close>\<close>

definition cancel_pending_frame :: "world \<Rightarrow> world" where
  "cancel_pending_frame w =
     (case w of (this, b) \<Rightarrow>
        (case rafId this of
           None \<Rightarrow> (this, b)
         | Some h \<Rightarrow>
             if truthy (Some h) then (this\<lparr> rafId := None \<rparr>, cancelAnimationFrame h b)
             else (this, b)))"

definition handleMouseLeave :: "world \<Rightarrow> world" where
  "handleMouseLeave w = reset (cancel_pending_frame w)"

definition handleResize :: "world \<Rightarrow> world" where
  "handleResize w =
     (case w of (this, b) \<Rightarrow>
        let b1 = clearTimeout (resizeTimeout this) b;
            (h, b2) = setTimeout ResizeSettle 150 b1
        in (this\<lparr> resizeTimeout := Some h \<rparr>, b2))"

definition destroy :: "world \<Rightarrow> world" where
  "destroy w =
     (case w of (this, b) \<Rightarrow>
        let (this1, b1) = cancel_pending_frame (this, b);
            heroSection = (case element this1 of None \<Rightarrow> False | Some el \<Rightarrow> inHeroSection b1);
            b2 = (if heroSection
                  then b1\<lparr> mousemoveListener := False, mouseleaveListener := False \<rparr> else b1);
            b3 = b2\<lparr> resizeListener := False \<rparr>;
            b4 = (case element this1 of
                    None \<Rightarrow> b3
                  | Some el \<Rightarrow>
                      let originalText =
                            join_with '' '' (map (\<lambda>word. textContent (spans b3 ! word)) (words this1))
                      in (set_element_text originalText b3)\<lparr> magneticEnabled := False \<rparr>)
        in (this1\<lparr> words := [], wordRects := [], isActive := False \<rparr>, b4))"

text \<open>
  The two timer callbacks: the closure of \<open>handleResize\<close> (150 ms after the last resize)
  and the closure of \<open>reset\<close> (\<open>resetDuration\<close> after a leave).
\<close>

definition run_timer_callback :: "timer_callback \<Rightarrow> world \<Rightarrow> world" where
  "run_timer_callback cb w =
     (case w of (this, b) \<Rightarrow>
        (case cb of
           ResizeSettle \<Rightarrow>
             if \<not> shouldInitialize b then destroy (this, b) else cacheBoundingRects (this, b)
         | ActiveClear \<Rightarrow>
             (this\<lparr> isActive := False \<rparr>,
              for_each_word (\<lambda>e. e\<lparr> activeClass := False \<rparr>) (words this) b)))"

subsection \<open>Events\<close>

text \<open>
  What the host can do to the page: deliver an event to the listeners that are attached,
  reach a frame boundary (the callbacks requested so far run, in order), let a pending
  timer expire, or change the environment. \<open>CallDestroy\<close> is a direct call of \<open>destroy()\<close>.
\<close>

datatype event =
    MouseMove real real
  | MouseLeave
  | Resize
  | MotionChange bool
  | AnimationFrame
  | TimerFires nat
  | Scroll real real
  | ViewportWidth int
  | Relayout "nat \<Rightarrow> dom_rect"
  | CallDestroy

definition dispatch :: "event \<Rightarrow> world \<Rightarrow> world" where
  "dispatch ev w =
     (case w of (this, b) \<Rightarrow>
        (case ev of
           MouseMove clientX clientY \<Rightarrow>
             if mousemoveListener b then handleMouseMove clientX clientY (this, b) else (this, b)
         | MouseLeave \<Rightarrow> if mouseleaveListener b then handleMouseLeave (this, b) else (this, b)
         | Resize \<Rightarrow> if resizeListener b then handleResize (this, b) else (this, b)
         | MotionChange m \<Rightarrow>
             let b1 = b\<lparr> prefersReducedMotion := m \<rparr>
             in if motionListener b1 \<and> m then destroy (this, b1) else (this, b1)
         | AnimationFrame \<Rightarrow>
             foldl (\<lambda>w' (h, cb). run_frame_callback cb w') (this, b\<lparr> animationFrames := [] \<rparr>)
               (animationFrames b)
         | TimerFires h \<Rightarrow>
             (case find (\<lambda>(k, d, cb). k = h) (timers b) of
                None \<Rightarrow> (this, b)
              | Some (k, d, cb) \<Rightarrow>
                  run_timer_callback cb
                    (this, b\<lparr> timers := filter (\<lambda>(k, d, cb). k \<noteq> h) (timers b) \<rparr>))
         | Scroll x y \<Rightarrow> (this, b\<lparr> scrollX := x, scrollY := y \<rparr>)
         | ViewportWidth n \<Rightarrow> (this, b\<lparr> innerWidth := n \<rparr>)
         | Relayout f \<Rightarrow> (this, b\<lparr> boundingClientRect := f \<rparr>)
         | CallDestroy \<Rightarrow> destroy (this, b)))"

definition run :: "event list \<Rightarrow> world \<Rightarrow> world" where
  "run evs w = foldl (\<lambda>w' ev. dispatch ev w') w evs"

text \<open>A page on which nothing has been scheduled and no listener is attached yet.\<close>

definition fresh :: "browser \<Rightarrow> bool" where
  "fresh b \<longleftrightarrow>
     animationFrames b = [] \<and> timers b = [] \<and> uncaught b = []
     \<and> \<not> mousemoveListener b \<and> \<not> mouseleaveListener b
     \<and> \<not> resizeListener b \<and> \<not> motionListener b"

subsection \<open>Notions the properties are stated with\<close>

text \<open>The document as the effect can change it: the container's children and class, and the spans.\<close>

definition document :: "browser \<Rightarrow> node list \<times> bool \<times> span_element list" where
  "document b = (childNodes b, magneticEnabled b, spans b)"

text \<open>
  Two states with the same words, the same container reference and the same text in
  every span.
\<close>

definition same_text :: "world \<Rightarrow> world \<Rightarrow> bool" where
  "same_text w w' \<longleftrightarrow>
     words (fst w') = words (fst w) \<and> element (fst w') = element (fst w)
     \<and> map textContent (spans (snd w')) = map textContent (spans (snd w))"

text \<open>The text of each word, in order: what \<open>destroy\<close> joins.\<close>

definition word_texts :: "world \<Rightarrow> string list" where
  "word_texts w = map (\<lambda>word. textContent (spans (snd w) ! word)) (words (fst w))"

text \<open>
  The state of the throttle: no frame is pending and \<open>rafId\<close> is \<open>null\<close>, or exactly
  one frame callback is pending and \<open>rafId\<close> is its handle; the two caches are parallel;
  the words are distinct spans.
\<close>

definition throttle_ok :: "world \<Rightarrow> bool" where
  "throttle_ok w \<longleftrightarrow>
     length (wordRects (fst w)) = length (words (fst w))
     \<and> distinct (words (fst w))
     \<and> (\<forall>r \<in> set (words (fst w)). r < length (spans (snd w)))
     \<and> ((rafId (fst w) = None \<and> animationFrames (snd w) = [])
        \<or> (\<exists>h x y. rafId (fst w) = Some (Suc h)
              \<and> animationFrames (snd w) = [(Suc h, FrameUpdate x y)]))"

text \<open>A burst of pointer-move events, each with its \<open>clientX\<close> and \<open>clientY\<close>.\<close>

definition mouse_moves :: "(real \<times> real) list \<Rightarrow> event list" where
  "mouse_moves ps = map (\<lambda>(x, y). MouseMove x y) ps"

text \<open>
  A desktop page whose container holds the text \<open>Hello World\<close>. The spans are laid out
  in a row, 60 pixels apart: the first word is centred at the origin, the second word
  (the third span) at \<open>(120, 0)\<close>.
\<close>

definition second_rect :: word_rect where
  "second_rect = \<lparr> left = 100, top' = -10, width = 40, height = 20, centerX = 120, centerY = 0 \<rparr>"

definition demo_page :: browser where
  "demo_page =
     \<lparr> ontouchstart = False, maxTouchPoints = 0, innerWidth = 1440,
       prefersReducedMotion = False, scrollX = 0, scrollY = 0,
       boundingClientRect =
         (\<lambda>word. \<lparr> dom_left = - 20 + 60 * real word, dom_top = - 10,
                   dom_width = 40, dom_height = 20 \<rparr>),
       selectorMatch = QElement, inHeroSection = True,
       childNodes = [TextNode ''Hello World''], magneticEnabled = False, spans = [],
       mousemoveListener = False, mouseleaveListener = False, resizeListener = False,
       motionListener = False, animationFrames = [], rafCounter = 0, timers = [],
       timerCounter = 0, console = [], uncaught = [] \<rparr>"

text \<open>The state after \<open>new MagneticHeroText('.hero-title')\<close> on that page.\<close>

definition demo_world :: world where
  "demo_world =
     (case new_MagneticHeroText ''.hero-title'' no_options demo_page of
        Inr w \<Rightarrow> w
      | Inl err \<Rightarrow> (initial_state ''.hero-title'' no_options, demo_page))"

text \<open>
  The same page when the selector matches no element, and the same page on a device
  with five touch points.
\<close>

definition no_target_page :: browser where
  "no_target_page = demo_page\<lparr> selectorMatch := QNull \<rparr>"

definition touch_page :: browser where
  "touch_page = demo_page\<lparr> maxTouchPoints := 5 \<rparr>"

text \<open>The instance and the page after construction on \<open>demo_page\<close>.\<close>

definition demo_state :: magnetic_hero_text where
  "demo_state =
     \<lparr> selector = ''.hero-title'', opts = default_options, element = Some Container,
       words = [0, 2], wordRects = [origin_rect, second_rect], rafId = None,
       isActive = False, resizeTimeout = None \<rparr>"

definition demo_active_page :: browser where
  "demo_active_page =
     demo_page\<lparr> childNodes := [SpanNode 0, SpanNode 1, SpanNode 2], magneticEnabled := True,
       spans := [\<lparr> className = ''word-magnetic'', textContent = ''Hello'',
                   activeClass = False, transform = Unset \<rparr>,
                 \<lparr> className = ''word-space'', textContent = '' '',
                   activeClass = False, transform = Unset \<rparr>,
                 \<lparr> className = ''word-magnetic'', textContent = ''World'',
                   activeClass = False, transform = Unset \<rparr>],
       mousemoveListener := True, mouseleaveListener := True, resizeListener := True,
       motionListener := True \<rparr>"

section \<open>The force law\<close>

lemma distance_on_axis: "distance r x (centerY r) = \<bar>x - centerX r\<bar>"
  by (simp add: distance_def Math_sqrt_def Let_def)

lemma distance_at_center: "distance r (centerX r) (centerY r) = 0"
  by (simp add: distance_def Math_sqrt_def Let_def)

lemma default_options_simps:
  "maxDistance default_options = 200" "maxDisplacement default_options = 25"
  by (simp_all add: default_options_def make_options_def no_options_def spread_def num_or_def)

lemma origin_rect_center: "centerX origin_rect = 0" "centerY origin_rect = 0"
  by (simp_all add: origin_rect_def)

lemma distance_origin_axis: "distance origin_rect x 0 = \<bar>x\<bar>"
  using distance_on_axis [of origin_rect x] by (simp add: origin_rect_center)

lemma force_origin_axis:
  assumes "0 < x"
  shows "calculateMagneticForce os origin_rect x 0 =
     (if x \<ge> maxDistance os then \<lparr> translateX = 0, translateY = 0 \<rparr>
      else \<lparr> translateX = (1 - x / maxDistance os) * maxDisplacement os, translateY = 0 \<rparr>)"
  using assms
  by (simp add: calculateMagneticForce_def distance_origin_axis Let_def Math_atan2_def
      Math_cos_def Math_sin_def origin_rect_center)

lemma force_at_center:
  assumes "0 < maxDistance os"
  shows "calculateMagneticForce os r (centerX r) (centerY r) =
     \<lparr> translateX = maxDisplacement os, translateY = 0 \<rparr>"
  using assms
  by (simp add: calculateMagneticForce_def distance_at_center Let_def Math_atan2_def
      Math_cos_def Math_sin_def)



text \<open>
  Claim C6, as the code has it. With \<open>maxDistance > 0\<close> and \<open>maxDisplacement \<ge> 0\<close>,
  a pointer exactly at a word's centre gives the displacement \<open>(maxDisplacement, 0)\<close>,
  of magnitude exactly \<open>maxDisplacement\<close>: the force factor is 1. The constructor
  accepts configurations outside this range; there the magnitude at the centre is not
  \<open>maxDisplacement\<close> (it is 25 for \<open>maxDisplacement = -25\<close>, and 0 for
  \<open>maxDistance = 0\<close>).
\<close>

theorem magnitude_at_center:
  assumes "0 < maxDistance os" and "0 \<le> maxDisplacement os"
  shows "calculateMagneticForce os r (centerX r) (centerY r) =
           \<lparr> translateX = maxDisplacement os, translateY = 0 \<rparr>
         \<and> magnitude (calculateMagneticForce os r (centerX r) (centerY r)) = maxDisplacement os"
  using assms by (simp add: force_at_center magnitude_def)

theorem magnitude_at_center_witness:
  "0 < maxDistance default_options \<and> 0 \<le> maxDisplacement default_options \<and>
   calculateMagneticForce default_options origin_rect 0 0 = \<lparr> translateX = 25, translateY = 0 \<rparr> \<and>
   magnitude (calculateMagneticForce default_options origin_rect 0 0) = 25"
proof -
  have h: "0 < maxDistance default_options" "0 \<le> maxDisplacement default_options"
    by (simp_all add: default_options_simps)
  have c: "calculateMagneticForce default_options origin_rect 0 0 = \<lparr> translateX = 25, translateY = 0 \<rparr> \<and>
      magnitude (calculateMagneticForce default_options origin_rect 0 0) = 25"
    using magnitude_at_center [OF h, of origin_rect]
    unfolding origin_rect_center default_options_simps .
  from h c show ?thesis by blast
qed

lemma repelling_options_simps:
  "maxDistance repelling_options = 200" "maxDisplacement repelling_options = - 25"
  by (simp_all add: repelling_options_def make_options_def no_options_def spread_def num_or_def)

lemma empty_field_options_simps:
  "maxDistance empty_field_options = 0" "maxDisplacement empty_field_options = 25"
  by (simp_all add: empty_field_options_def make_options_def no_options_def spread_def num_or_def)

theorem magnitude_at_center_counterexample:
  "magnitude (calculateMagneticForce repelling_options origin_rect
      (centerX origin_rect) (centerY origin_rect)) \<noteq> maxDisplacement repelling_options
   \<and> magnitude (calculateMagneticForce empty_field_options origin_rect
      (centerX origin_rect) (centerY origin_rect)) \<noteq> maxDisplacement empty_field_options"
proof
  have "calculateMagneticForce repelling_options origin_rect
      (centerX origin_rect) (centerY origin_rect) = \<lparr> translateX = - 25, translateY = 0 \<rparr>"
    using force_at_center [of repelling_options origin_rect]
    by (simp add: repelling_options_simps)
  then show "magnitude (calculateMagneticForce repelling_options origin_rect
      (centerX origin_rect) (centerY origin_rect)) \<noteq> maxDisplacement repelling_options"
    by (simp add: magnitude_def repelling_options_simps)
next
  have "calculateMagneticForce empty_field_options origin_rect
      (centerX origin_rect) (centerY origin_rect) = \<lparr> translateX = 0, translateY = 0 \<rparr>"
    by (simp add: calculateMagneticForce_def distance_at_center empty_field_options_simps)
  then show "magnitude (calculateMagneticForce empty_field_options origin_rect
      (centerX origin_rect) (centerY origin_rect)) \<noteq> maxDisplacement empty_field_options"
    by (simp add: magnitude_def empty_field_options_simps)
qed

section \<open>Eligibility and a missing target\<close>

subsection \<open>Runs of events\<close>

lemma run_Nil: "run [] w = w"
  by (simp add: run_def)

lemma run_Cons: "run (ev # evs) w = run evs (dispatch ev w)"
  by (simp add: run_def)

lemma run_snoc: "run (evs @ [ev]) w = dispatch ev (run evs w)"
  by (simp add: run_def)

lemma destroy_uninitialized:
  assumes "fresh b"
  shows "destroy (initial_state sel raw, b) = (initial_state sel raw, b)"
  using assms
  by (simp add: destroy_def cancel_pending_frame_def initial_state_def fresh_def)

lemma dispatch_uninitialized:
  assumes "fresh b"
  shows "\<exists>b'. dispatch ev (initial_state sel raw, b) = (initial_state sel raw, b')
           \<and> fresh b' \<and> document b' = document b \<and> console b' = console b"
proof (cases ev)
  case (MotionChange m)
  have "fresh (b\<lparr> prefersReducedMotion := m \<rparr>)" using assms by (simp add: fresh_def)
  then show ?thesis using MotionChange assms
    by (simp add: dispatch_def destroy_uninitialized fresh_def document_def)
next
  case AnimationFrame
  then show ?thesis using assms by (simp add: dispatch_def fresh_def document_def)
next
  case CallDestroy
  then show ?thesis using assms by (simp add: dispatch_def destroy_uninitialized)
qed (use assms in \<open>simp_all add: dispatch_def fresh_def document_def\<close>)

lemma run_uninitialized:
  assumes "fresh b"
  shows "\<exists>b'. run evs (initial_state sel raw, b) = (initial_state sel raw, b')
           \<and> fresh b' \<and> document b' = document b \<and> console b' = console b"
  using assms
proof (induction evs arbitrary: b)
  case Nil
  then show ?case by (simp add: run_Nil)
next
  case (Cons ev evs)
  from dispatch_uninitialized [OF Cons.prems, of ev sel raw]
  obtain b1 where d: "dispatch ev (initial_state sel raw, b) = (initial_state sel raw, b1)"
    and f: "fresh b1" and eq: "document b1 = document b" "console b1 = console b"
    by blast
  from Cons.IH [OF f] d eq show ?case by (simp add: run_Cons)
qed

subsection \<open>The eligibility gate\<close>

text \<open>
  Claim C8. The eligibility gate is a function of the environment alone. It returns false
  exactly when the device reports touch capability (\<open>ontouchstart\<close> is present, or
  \<open>maxTouchPoints > 0\<close>), or the viewport is at most 1024 pixels wide, or reduced motion
  is preferred. On a touch-capable device the constructor leaves the instance as it
  created it, whatever the width and the motion preference, and no later event changes
  the instance or the document.
\<close>

theorem eligibility_gate:
  "(\<not> shouldInitialize b \<longleftrightarrow>
      (ontouchstart b \<or> 0 < maxTouchPoints b) \<or> innerWidth b \<le> 1024 \<or> prefersReducedMotion b)
   \<and> ((ontouchstart b \<or> 0 < maxTouchPoints b) \<longrightarrow>
        new_MagneticHeroText sel raw b = Inr (initial_state sel raw, b)
        \<and> (fresh b \<longrightarrow> fst (run evs (initial_state sel raw, b)) = initial_state sel raw
                        \<and> document (snd (run evs (initial_state sel raw, b))) = document b))"
proof (intro conjI impI)
  show "\<not> shouldInitialize b \<longleftrightarrow>
      (ontouchstart b \<or> 0 < maxTouchPoints b) \<or> innerWidth b \<le> 1024 \<or> prefersReducedMotion b"
    by (simp add: shouldInitialize_def)
next
  assume "ontouchstart b \<or> 0 < maxTouchPoints b"
  then show "new_MagneticHeroText sel raw b = Inr (initial_state sel raw, b)"
    by (auto simp add: new_MagneticHeroText_def init_def shouldInitialize_def)
next
  assume "fresh b"
  from run_uninitialized [OF this, of evs sel raw]
  show "fst (run evs (initial_state sel raw, b)) = initial_state sel raw" by auto
next
  assume "fresh b"
  from run_uninitialized [OF this, of evs sel raw]
  show "document (snd (run evs (initial_state sel raw, b))) = document b" by auto
qed

lemma fresh_demo_page: "fresh demo_page"
  by (simp add: fresh_def demo_page_def)

theorem eligibility_gate_witness:
  "\<not> shouldInitialize touch_page
   \<and> (ontouchstart touch_page \<or> 0 < maxTouchPoints touch_page)
   \<and> fresh touch_page
   \<and> new_MagneticHeroText ''.hero-title'' no_options touch_page
       = Inr (initial_state ''.hero-title'' no_options, touch_page)
   \<and> fst (run [MouseMove 10 0, Resize, AnimationFrame]
        (initial_state ''.hero-title'' no_options, touch_page))
       = initial_state ''.hero-title'' no_options
   \<and> shouldInitialize demo_page"
  using eligibility_gate [of touch_page "''.hero-title''" no_options "[MouseMove 10 0, Resize, AnimationFrame]"]
    eligibility_gate [of demo_page]
  by (simp add: touch_page_def demo_page_def fresh_def)

subsection \<open>No element for the selector\<close>

text \<open>
  Claim C9. When the gate passes and the selector matches no element, the constructor
  returns normally, having logged one warning; the instance keeps the fields the
  constructor gave it, and after any events it still does: the document is unchanged, no
  listener is attached, nothing is scheduled and no error was thrown.
\<close>

theorem target_not_found:
  assumes "shouldInitialize b" and "selectorMatch b = QNull" and "fresh b"
  shows "new_MagneticHeroText sel raw b
           = Inr (initial_state sel raw, b\<lparr> console := console b @ [not_found_warning sel] \<rparr>)
         \<and> fst (run evs (initial_state sel raw, b\<lparr> console := console b @ [not_found_warning sel] \<rparr>))
           = initial_state sel raw
         \<and> document (snd (run evs
             (initial_state sel raw, b\<lparr> console := console b @ [not_found_warning sel] \<rparr>)))
           = document b
         \<and> fresh (snd (run evs
             (initial_state sel raw, b\<lparr> console := console b @ [not_found_warning sel] \<rparr>)))"
proof -
  let ?b = "b\<lparr> console := console b @ [not_found_warning sel] \<rparr>"
  have c: "new_MagneticHeroText sel raw b = Inr (initial_state sel raw, ?b)"
    using assms(1,2) by (simp add: new_MagneticHeroText_def init_def initial_state_def)
  have f: "fresh ?b" using assms(3) by (simp add: fresh_def)
  have d: "document ?b = document b" by (simp add: document_def)
  from run_uninitialized [OF f, of evs sel raw] c d show ?thesis by auto
qed

theorem target_not_found_witness:
  "shouldInitialize no_target_page \<and> selectorMatch no_target_page = QNull \<and> fresh no_target_page
   \<and> new_MagneticHeroText ''.hero-title'' no_options no_target_page
       = Inr (initial_state ''.hero-title'' no_options,
              no_target_page\<lparr> console := [not_found_warning ''.hero-title''] \<rparr>)
   \<and> fst (run [MouseMove 10 0, Resize, AnimationFrame, CallDestroy]
        (initial_state ''.hero-title'' no_options,
         no_target_page\<lparr> console := [not_found_warning ''.hero-title''] \<rparr>))
       = initial_state ''.hero-title'' no_options"
proof -
  have h: "shouldInitialize no_target_page" "selectorMatch no_target_page = QNull"
    "fresh no_target_page"
    by (simp_all add: no_target_page_def demo_page_def shouldInitialize_def fresh_def)
  have c: "console no_target_page = []" by (simp add: no_target_page_def demo_page_def)
  from target_not_found [OF h, of "''.hero-title''" no_options
      "[MouseMove 10 0, Resize, AnimationFrame, CallDestroy]"] h
  show ?thesis by (simp add: c)
qed

section \<open>Segmentation, the throttle and teardown\<close>

subsection \<open>Splitting and joining\<close>

lemma split_on_not_Nil: "split_on sep t \<noteq> []"
  by (induction t) (auto split: list.splits)

lemma join_with_Cons_Cons: "join_with sep ((c # w) # ws) = c # join_with sep (w # ws)"
  by (cases ws) simp_all

lemma join_with_Nil_Cons: "ws \<noteq> [] \<Longrightarrow> join_with sep ([] # ws) = sep @ join_with sep ws"
  by (cases ws) simp_all

lemma join_split: "join_with [sep] (split_on sep t) = t"
proof (induction t)
  case Nil
  show ?case by simp
next
  case (Cons c cs)
  show ?case
  proof (cases "c = sep")
    case True
    with Cons show ?thesis by (simp add: join_with_Nil_Cons split_on_not_Nil)
  next
    case False
    obtain w ws where s: "split_on sep cs = w # ws"
      using split_on_not_Nil [of sep cs] by (cases "split_on sep cs") auto
    with Cons False show ?thesis by (simp add: join_with_Cons_Cons)
  qed
qed

subsection \<open>Updating spans keeps their text\<close>

lemma update_span_eq: "update_span r f b = b\<lparr> spans := (spans b)[r := f (spans b ! r)] \<rparr>"
  by (simp add: update_span_def)

lemma map_text_update:
  assumes "textContent (f (ss ! r)) = textContent (ss ! r)"
  shows "map textContent (ss[r := f (ss ! r)]) = map textContent ss"
proof (cases "r < length ss")
  case True
  have "map textContent (ss[r := f (ss ! r)]) = (map textContent ss)[r := textContent (ss ! r)]"
    using assms by (simp add: map_update)
  also have "\<dots> = map textContent ss"
    using True by (metis list_update_id nth_map)
  finally show ?thesis .
next
  case False
  then have "length ss \<le> r" by simp
  then show ?thesis by (simp add: list_update_beyond)
qed

lemma for_each_word_spans:
  "\<exists>ss. for_each_word f ws b = b\<lparr> spans := ss \<rparr> \<and> length ss = length (spans b)
        \<and> ((\<forall>e. textContent (f e) = textContent e) \<longrightarrow>
              map textContent ss = map textContent (spans b))"
proof (induction ws arbitrary: b)
  case Nil
  show ?case by (intro exI [of _ "spans b"]) (simp add: for_each_word_def)
next
  case (Cons r rs)
  let ?b1 = "update_span r f b"
  from Cons [of ?b1] obtain ss where
    ss: "for_each_word f rs ?b1 = ?b1\<lparr> spans := ss \<rparr>" "length ss = length (spans ?b1)"
      "(\<forall>e. textContent (f e) = textContent e) \<longrightarrow> map textContent ss = map textContent (spans ?b1)"
    by blast
  have "for_each_word f (r # rs) b = for_each_word f rs ?b1"
    by (simp add: for_each_word_def)
  with ss have "for_each_word f (r # rs) b = b\<lparr> spans := ss \<rparr>"
    by (simp add: update_span_eq)
  moreover have "length ss = length (spans b)" using ss(2) by (simp add: update_span_eq)
  moreover have "(\<forall>e. textContent (f e) = textContent e) \<longrightarrow>
      map textContent ss = map textContent (spans b)"
    using ss(3) by (simp add: update_span_eq map_text_update)
  ultimately show ?case by blast
qed

lemma update_words_from_spans:
  "\<exists>ss. snd (update_words_from os rects mx my i ws b) = b\<lparr> spans := ss \<rparr>
        \<and> length ss = length (spans b)
        \<and> map textContent ss = map textContent (spans b)"
proof (induction ws arbitrary: i b)
  case Nil
  show ?case by (intro exI [of _ "spans b"]) simp
next
  case (Cons r rs)
  show ?case
  proof (cases "i < length rects")
    case False
    then show ?thesis by (intro exI [of _ "spans b"]) simp
  next
    case True
    let ?t = "calculateMagneticForce os (rects ! i) mx my"
    let ?b1 = "animateWord r (translateX ?t) (translateY ?t) b"
    from Cons [of "Suc i" ?b1] obtain ss where
      ss: "snd (update_words_from os rects mx my (Suc i) rs ?b1) = ?b1\<lparr> spans := ss \<rparr>"
        "length ss = length (spans ?b1)" "map textContent ss = map textContent (spans ?b1)"
      by blast
    have b1: "?b1 = b\<lparr> spans := (spans b)[r := (spans b ! r)\<lparr> transform := Translate3d_px (translateX ?t) (translateY ?t) \<rparr>] \<rparr>"
      by (simp add: animateWord_def update_span_eq)
    have "snd (update_words_from os rects mx my i (r # rs) b) = b\<lparr> spans := ss \<rparr>"
      using True ss(1) by (simp add: Let_def b1)
    moreover have "length ss = length (spans b)" using ss(2) by (simp add: b1)
    moreover have "map textContent ss = map textContent (spans b)"
      using ss(3) map_text_update [of "\<lambda>e. e\<lparr> transform := Translate3d_px (translateX ?t) (translateY ?t) \<rparr>" "spans b" r]
      by (simp add: b1)
    ultimately show ?thesis by blast
  qed
qed

lemma update_words_from_ok:
  "i + length ws \<le> length rects \<Longrightarrow> fst (update_words_from os rects mx my i ws b) = None"
  by (induction ws arbitrary: i b) (simp_all add: Let_def)

lemma update_words_from_transform:
  assumes "i + length ws \<le> length rects" and "distinct ws" and "\<forall>r \<in> set ws. r < length (spans b)"
  shows "(\<forall>k < length ws.
            transform (spans (snd (update_words_from os rects mx my i ws b)) ! (ws ! k))
              = Translate3d_px (translateX (calculateMagneticForce os (rects ! (i + k)) mx my))
                               (translateY (calculateMagneticForce os (rects ! (i + k)) mx my)))
         \<and> (\<forall>r. r \<notin> set ws \<longrightarrow>
               spans (snd (update_words_from os rects mx my i ws b)) ! r = spans b ! r)"
  using assms
proof (induction ws arbitrary: i b)
  case Nil
  show ?case by simp
next
  case (Cons r rs)
  let ?t = "calculateMagneticForce os (rects ! i) mx my"
  let ?b1 = "animateWord r (translateX ?t) (translateY ?t) b"
  have b1: "spans ?b1 = (spans b)[r := (spans b ! r)\<lparr> transform := Translate3d_px (translateX ?t) (translateY ?t) \<rparr>]"
    by (simp add: animateWord_def update_span_eq)
  have i: "i < length rects" using Cons.prems(1) by simp
  have step: "update_words_from os rects mx my i (r # rs) b
      = update_words_from os rects mx my (Suc i) rs ?b1"
    using i by (simp add: Let_def)
  have pre: "Suc i + length rs \<le> length rects" "distinct rs" "\<forall>r \<in> set rs. r < length (spans ?b1)"
    using Cons.prems by (simp_all add: b1)
  note IH = Cons.IH [OF pre]
  have r: "r \<notin> set rs" "r < length (spans b)" using Cons.prems by simp_all
  show ?case
  proof (intro conjI allI impI)
    fix k assume k: "k < length (r # rs)"
    show "transform (spans (snd (update_words_from os rects mx my i (r # rs) b)) ! ((r # rs) ! k))
        = Translate3d_px (translateX (calculateMagneticForce os (rects ! (i + k)) mx my))
                         (translateY (calculateMagneticForce os (rects ! (i + k)) mx my))"
    proof (cases k)
      case 0
      have "spans (snd (update_words_from os rects mx my (Suc i) rs ?b1)) ! r = spans ?b1 ! r"
        using IH r(1) by blast
      then show ?thesis unfolding step using 0 r(2) by (simp add: b1)
    next
      case (Suc j)
      then have "j < length rs" using k by simp
      with IH Suc show ?thesis unfolding step by simp
    qed
  next
    fix q assume "q \<notin> set (r # rs)"
    then have q: "q \<notin> set rs" "q \<noteq> r" by simp_all
    with IH have "spans (snd (update_words_from os rects mx my (Suc i) rs ?b1)) ! q = spans ?b1 ! q"
      by blast
    then show "spans (snd (update_words_from os rects mx my i (r # rs) b)) ! q = spans b ! q"
      unfolding step using q(2) by (simp add: b1)
  qed
qed

subsection \<open>Segmentation\<close>

lemma createElement_eq:
  "createElement b = (length (spans b),
     b\<lparr> spans := spans b @ [\<lparr> className = [], textContent = [], activeClass = False, transform = Unset \<rparr>] \<rparr>)"
  by (simp add: createElement_def)

lemma nth_append_Suc_length: "(xs @ [a, c]) ! Suc (length xs) = c"
  by (simp add: nth_append)

lemma update_append_Suc_length: "(xs @ [a, c])[Suc (length xs) := y] = xs @ [a, y]"
  by (induction xs) simp_all

lemma add_word_spans_result:
  assumes "distinct (words this)" and "\<forall>r \<in> set (words this). r < length (spans b)"
  shows "\<exists>ws' ss cs. add_word_spans n i ts (this, b) = (this\<lparr> words := ws' \<rparr>, b\<lparr> spans := ss, childNodes := cs \<rparr>)
     \<and> distinct ws' \<and> (\<forall>r \<in> set ws'. r < length ss)
     \<and> map (\<lambda>r. textContent (ss ! r)) ws' = map (\<lambda>r. textContent (spans b ! r)) (words this) @ ts
     \<and> length ws' = length (words this) + length ts"
  using assms
proof (induction ts arbitrary: this b i)
  case Nil
  show ?case
    by (intro exI [of _ "words this"] exI [of _ "spans b"] exI [of _ "childNodes b"])
      (use Nil in simp)
next
  case (Cons t ts)
  let ?L = "length (spans b)"
  let ?word = "\<lparr> className = ''word-magnetic'', textContent = t, activeClass = False, transform = Unset \<rparr>"
  let ?space = "\<lparr> className = ''word-space'', textContent = '' '', activeClass = False, transform = Unset \<rparr>"
  let ?this1 = "this\<lparr> words := words this @ [?L] \<rparr>"
  define ss1 where "ss1 = (if int i < int n - 1 then spans b @ [?word, ?space] else spans b @ [?word])"
  define cs1 where "cs1 = (if int i < int n - 1 then childNodes b @ [SpanNode ?L, SpanNode (Suc ?L)]
      else childNodes b @ [SpanNode ?L])"
  let ?b6 = "b\<lparr> spans := ss1, childNodes := cs1 \<rparr>"
  have step: "add_word_spans n i (t # ts) (this, b) = add_word_spans n (Suc i) ts (?this1, ?b6)"
    by (simp add: createElement_eq update_span_eq ss1_def cs1_def Let_def
        nth_append_Suc_length update_append_Suc_length)
  have old: "\<forall>r \<in> set (words this). r < ?L" using Cons.prems(2) by simp
  have len: "?L < length ss1" by (simp add: ss1_def)
  have same: "\<forall>r < ?L. ss1 ! r = spans b ! r" by (simp add: ss1_def nth_append)
  have new: "textContent (ss1 ! ?L) = t" by (simp add: ss1_def nth_append)
  have d1: "distinct (words ?this1)" using Cons.prems(1) old by auto
  have v1: "\<forall>r \<in> set (words ?this1). r < length (spans ?b6)" using old len by auto
  from Cons.IH [OF d1 v1, of "Suc i"] obtain ws' ss cs where
    r: "add_word_spans n (Suc i) ts (?this1, ?b6) = (?this1\<lparr> words := ws' \<rparr>, ?b6\<lparr> spans := ss, childNodes := cs \<rparr>)"
    and d: "distinct ws'" and v: "\<forall>r \<in> set ws'. r < length ss"
    and tx: "map (\<lambda>r. textContent (ss ! r)) ws' = map (\<lambda>r. textContent (spans ?b6 ! r)) (words ?this1) @ ts"
    and ln: "length ws' = length (words ?this1) + length ts"
    by blast
  have "map (\<lambda>r. textContent (spans ?b6 ! r)) (words ?this1)
      = map (\<lambda>r. textContent (spans b ! r)) (words this) @ [t]"
    using old same new by simp
  with tx have tx': "map (\<lambda>r. textContent (ss ! r)) ws'
      = map (\<lambda>r. textContent (spans b ! r)) (words this) @ t # ts" by simp
  have "add_word_spans n i (t # ts) (this, b) = (this\<lparr> words := ws' \<rparr>, b\<lparr> spans := ss, childNodes := cs \<rparr>)"
    unfolding step r by simp
  with d v tx' ln show ?case by auto
qed

lemma init_result:
  assumes "shouldInitialize b" and "selectorMatch b = QElement"
  shows "\<exists>w0. new_MagneticHeroText sel raw b = Inr w0
     \<and> element (fst w0) = Some Container
     \<and> word_texts w0 = split_on CHR '' '' (element_text b)
     \<and> distinct (words (fst w0))
     \<and> (\<forall>r \<in> set (words (fst w0)). r < length (spans (snd w0)))
     \<and> length (wordRects (fst w0)) = length (words (fst w0))
     \<and> rafId (fst w0) = None
     \<and> animationFrames (snd w0) = animationFrames b
     \<and> words (fst w0) \<noteq> []"
proof -
  let ?me = "(initial_state sel raw)\<lparr> element := Some Container \<rparr>"
  let ?b2 = "(set_element_text [] b)\<lparr> magneticEnabled := True \<rparr>"
  let ?ts = "split_on CHR '' '' (element_text b)"
  have w: "words ?me = []" by (simp add: initial_state_def)
  from add_word_spans_result [of ?me ?b2 "length ?ts" 0 ?ts] w
  obtain ws' ss cs where
    r: "add_word_spans (length ?ts) 0 ?ts (?me, ?b2) = (?me\<lparr> words := ws' \<rparr>, ?b2\<lparr> spans := ss, childNodes := cs \<rparr>)"
    and d: "distinct ws'" and v: "\<forall>r \<in> set ws'. r < length ss"
    and tx: "map (\<lambda>r. textContent (ss ! r)) ws' = ?ts"
    and ln: "length ws' = length ?ts"
    by auto
  have s: "splitTextIntoWords (?me, b) = (?me\<lparr> words := ws' \<rparr>, ?b2\<lparr> spans := ss, childNodes := cs \<rparr>)"
    using r by (simp add: splitTextIntoWords_def Let_def)
  let ?w0 = "setupReducedMotionListener (setupEventListeners (cacheBoundingRects
      (?me\<lparr> words := ws' \<rparr>, ?b2\<lparr> spans := ss, childNodes := cs \<rparr>)))"
  have c: "new_MagneticHeroText sel raw b = Inr ?w0"
    using assms s by (simp add: new_MagneticHeroText_def init_def)
  have ne: "ws' \<noteq> []" using ln split_on_not_Nil [of "CHR '' ''" "element_text b"] by auto
  have f: "words (fst ?w0) = ws'" "spans (snd ?w0) = ss" "element (fst ?w0) = Some Container"
    "length (wordRects (fst ?w0)) = length ws'" "rafId (fst ?w0) = None"
    "animationFrames (snd ?w0) = animationFrames b"
    by (simp_all add: setupReducedMotionListener_def setupEventListeners_def cacheBoundingRects_def
        Let_def initial_state_def set_element_text_def)
  have "word_texts ?w0 = ?ts" using tx f(1,2) by (simp add: word_texts_def)
  with c d v ne f show ?thesis by (intro exI [of _ ?w0]) simp
qed

subsection \<open>No handler changes a word or its text\<close>

lemma same_text_refl: "same_text w w"
  by (simp add: same_text_def)

lemma same_text_trans: "same_text w w1 \<Longrightarrow> same_text w1 w2 \<Longrightarrow> same_text w w2"
  by (simp add: same_text_def)

lemma same_text_word_texts:
  assumes "same_text w w'" and "\<forall>r \<in> set (words (fst w)). r < length (spans (snd w))"
  shows "word_texts w' = word_texts w"
proof -
  have m: "map textContent (spans (snd w')) = map textContent (spans (snd w))"
    and ws: "words (fst w') = words (fst w)"
    using assms(1) by (simp_all add: same_text_def)
  from m have l: "length (spans (snd w')) = length (spans (snd w))"
    by (metis length_map)
  have "textContent (spans (snd w') ! r) = textContent (spans (snd w) ! r)"
    if "r \<in> set (words (fst w))" for r
  proof -
    from that assms(2) have r: "r < length (spans (snd w))" by blast
    then have "textContent (spans (snd w') ! r) = map textContent (spans (snd w')) ! r"
      using l by simp
    also have "\<dots> = textContent (spans (snd w) ! r)" using r by (simp add: m)
    finally show ?thesis .
  qed
  then show ?thesis by (simp add: word_texts_def ws)
qed

lemma cancel_pending_frame_same: "same_text w (cancel_pending_frame w)"
  by (cases w)
    (simp add: cancel_pending_frame_def same_text_def cancelAnimationFrame_def
      split: option.splits)

lemma handleMouseMove_same: "same_text w (handleMouseMove x y w)"
proof (cases w)
  case (Pair this b)
  let ?b1 = "snd (requestAnimationFrame (FrameUpdate x y) b)"
  from for_each_word_spans [of "\<lambda>e. e\<lparr> activeClass := True \<rparr>" "words this" ?b1]
  obtain ss where "for_each_word (\<lambda>e. e\<lparr> activeClass := True \<rparr>) (words this) ?b1 = ?b1\<lparr> spans := ss \<rparr>"
    "map textContent ss = map textContent (spans ?b1)"
    by auto
  then show ?thesis using Pair
    by (simp add: handleMouseMove_def same_text_def requestAnimationFrame_def Let_def)
qed

lemma reset_same: "same_text w (reset w)"
proof (cases w)
  case (Pair this b)
  from for_each_word_spans [of "\<lambda>e. e\<lparr> transform := Translate3d_origin \<rparr>" "words this" b]
  obtain ss where "for_each_word (\<lambda>e. e\<lparr> transform := Translate3d_origin \<rparr>) (words this) b = b\<lparr> spans := ss \<rparr>"
    "map textContent ss = map textContent (spans b)"
    by auto
  then show ?thesis using Pair
    by (simp add: reset_def same_text_def setTimeout_def Let_def)
qed

lemma handleMouseLeave_same: "same_text w (handleMouseLeave w)"
  unfolding handleMouseLeave_def
  by (rule same_text_trans [OF cancel_pending_frame_same reset_same])

lemma handleResize_same: "same_text w (handleResize w)"
  by (cases w)
    (simp add: handleResize_def same_text_def setTimeout_def clearTimeout_def Let_def
      split: option.splits)

lemma cacheBoundingRects_same: "same_text w (cacheBoundingRects w)"
  by (cases w) (simp add: cacheBoundingRects_def same_text_def)

lemma run_frame_callback_same: "same_text w (run_frame_callback cb w)"
proof (cases w)
  case (Pair this b)
  obtain x y where cb: "cb = FrameUpdate x y" by (cases cb)
  let ?u = "update_words_from (opts this) (wordRects this) (x + scrollX b) (y + scrollY b) 0 (words this) b"
  from update_words_from_spans [of "opts this" "wordRects this" "x + scrollX b" "y + scrollY b" 0 "words this" b]
  obtain ss where ss: "snd ?u = b\<lparr> spans := ss \<rparr>" "map textContent ss = map textContent (spans b)"
    by blast
  obtain err b1 where u: "?u = (err, b1)" by (cases ?u)
  with ss have b1: "b1 = b\<lparr> spans := ss \<rparr>" by simp
  show ?thesis using Pair cb u b1 ss(2)
    by (cases err) (simp_all add: run_frame_callback_def updateWordPositions_def same_text_def)
qed

lemma frames_same: "same_text w (foldl (\<lambda>w' (h, cb). run_frame_callback cb w') w q)"
proof (induction q arbitrary: w)
  case Nil
  show ?case by (simp add: same_text_refl)
next
  case (Cons a q)
  obtain h cb where a: "a = (h, cb)" by (cases a)
  show ?case using same_text_trans [OF run_frame_callback_same [of w cb] Cons [of "run_frame_callback cb w"]]
    by (simp add: a)
qed

lemma run_timer_callback_text:
  "same_text w (run_timer_callback cb w) \<or> run_timer_callback cb w = destroy w"
proof (cases w)
  case (Pair this b)
  from for_each_word_spans [of "\<lambda>e. e\<lparr> activeClass := False \<rparr>" "words this" b]
  obtain ss where "for_each_word (\<lambda>e. e\<lparr> activeClass := False \<rparr>) (words this) b = b\<lparr> spans := ss \<rparr>"
    "map textContent ss = map textContent (spans b)"
    by auto
  then show ?thesis using Pair cacheBoundingRects_same [of "(this, b)"]
    by (cases cb) (simp_all add: run_timer_callback_def same_text_def)
qed

lemma dispatch_text:
  "same_text w (dispatch ev w) \<or> (\<exists>w1. same_text w w1 \<and> dispatch ev w = destroy w1)"
proof (cases w)
  case (Pair this b)
  show ?thesis
  proof (cases ev)
    case (MouseMove x y)
    then show ?thesis using Pair handleMouseMove_same [of w x y]
      by (simp add: dispatch_def same_text_refl)
  next
    case MouseLeave
    then show ?thesis using Pair handleMouseLeave_same [of w]
      by (simp add: dispatch_def same_text_refl)
  next
    case Resize
    then show ?thesis using Pair handleResize_same [of w]
      by (simp add: dispatch_def same_text_refl)
  next
    case (MotionChange m)
    let ?w1 = "(this, b\<lparr> prefersReducedMotion := m \<rparr>)"
    have s: "same_text w ?w1" using Pair by (simp add: same_text_def)
    show ?thesis
    proof (cases "motionListener b \<and> m")
      case True
      then have "dispatch ev w = destroy ?w1"
        using Pair MotionChange by (simp add: dispatch_def Let_def)
      with s show ?thesis by blast
    next
      case False
      then have "dispatch ev w = ?w1"
        using Pair MotionChange by (auto simp add: dispatch_def Let_def)
      with s show ?thesis by simp
    qed
  next
    case AnimationFrame
    have "same_text w (this, b\<lparr> animationFrames := [] \<rparr>)"
      using Pair by (simp add: same_text_def)
    from same_text_trans [OF this frames_same [of _ "animationFrames b"]]
    have "same_text w (dispatch ev w)" using Pair AnimationFrame by (simp add: dispatch_def)
    then show ?thesis ..
  next
    case (TimerFires h)
    show ?thesis
    proof (cases "find (\<lambda>(k, d, cb). k = h) (timers b)")
      case None
      then show ?thesis using Pair TimerFires by (simp add: dispatch_def same_text_refl)
    next
      case (Some a)
      obtain k d cb where a: "a = (k, d, cb)" by (cases a)
      let ?w1 = "(this, b\<lparr> timers := filter (\<lambda>(k, d, cb). k \<noteq> h) (timers b) \<rparr>)"
      have s: "same_text w ?w1" using Pair by (simp add: same_text_def)
      have d: "dispatch ev w = run_timer_callback cb ?w1"
        using Pair TimerFires Some a by (simp add: dispatch_def)
      from run_timer_callback_text [of ?w1 cb] show ?thesis
      proof
        assume "same_text ?w1 (run_timer_callback cb ?w1)"
        from same_text_trans [OF s this] d show ?thesis by simp
      next
        assume "run_timer_callback cb ?w1 = destroy ?w1"
        with s d show ?thesis by auto
      qed
    qed
  next
    case (Scroll x y)
    then show ?thesis using Pair by (simp add: dispatch_def same_text_def)
  next
    case (ViewportWidth n)
    then show ?thesis using Pair by (simp add: dispatch_def same_text_def)
  next
    case (Relayout f)
    then show ?thesis using Pair by (simp add: dispatch_def same_text_def)
  next
    case CallDestroy
    then show ?thesis using Pair same_text_refl [of w] by (auto simp add: dispatch_def)
  qed
qed

lemma destroy_words: "words (fst (destroy w)) = []"
  by (cases w) (simp add: destroy_def Let_def split: prod.splits)

lemma destroy_restores:
  assumes "element (fst w) = Some Container"
  shows "childNodes (snd (destroy w)) =
           (if join_with '' '' (word_texts w) = [] then []
            else [TextNode (join_with '' '' (word_texts w))])"
    and "\<not> magneticEnabled (snd (destroy w))"
    and "element_text (snd (destroy w)) = join_with '' '' (word_texts w)"
proof -
  obtain this b where w: "w = (this, b)" by (cases w)
  obtain this1 b1 where c: "cancel_pending_frame (this, b) = (this1, b1)"
    by (cases "cancel_pending_frame (this, b)")
  from cancel_pending_frame_same [of "(this, b)"] c
  have s: "words this1 = words this" "element this1 = element this" "spans b1 = spans b"
    by (auto simp add: same_text_def cancel_pending_frame_def cancelAnimationFrame_def
        split: option.splits if_splits)
  show "childNodes (snd (destroy w)) =
           (if join_with '' '' (word_texts w) = [] then []
            else [TextNode (join_with '' '' (word_texts w))])"
    using w assms c s
    by (simp add: destroy_def Let_def word_texts_def set_element_text_def)
  show "\<not> magneticEnabled (snd (destroy w))"
    using w assms c s by (simp add: destroy_def Let_def set_element_text_def)
  show "element_text (snd (destroy w)) = join_with '' '' (word_texts w)"
    using w assms c s
    by (simp add: destroy_def Let_def word_texts_def element_text_def set_element_text_def
        node_text_def)
qed

lemma run_same_text: "words (fst (run evs w0)) \<noteq> [] \<Longrightarrow> same_text w0 (run evs w0)"
proof (induction evs rule: rev_induct)
  case Nil
  show ?case by (simp add: run_def same_text_refl)
next
  case (snoc ev evs)
  let ?w = "run evs w0"
  have r: "run (evs @ [ev]) w0 = dispatch ev ?w" by (simp add: run_def)
  from dispatch_text [of ?w ev] show ?case
  proof
    assume s: "same_text ?w (dispatch ev ?w)"
    then have "words (fst ?w) \<noteq> []" using snoc.prems r by (simp add: same_text_def)
    from same_text_trans [OF snoc.IH [OF this] s] r show ?thesis by simp
  next
    assume "\<exists>w1. same_text ?w w1 \<and> dispatch ev ?w = destroy w1"
    then have "words (fst (dispatch ev ?w)) = []" using destroy_words by auto
    with snoc.prems r show ?thesis by simp
  qed
qed

subsection \<open>The demo page\<close>

lemmas construct_defs = new_MagneticHeroText_def init_def initial_state_def shouldInitialize_def
  splitTextIntoWords_def element_text_def node_text_def set_element_text_def
  createElement_def update_span_def cacheBoundingRects_def setupEventListeners_def
  setupReducedMotionListener_def Let_def

lemmas handler_defs = dispatch_def handleMouseMove_def handleMouseLeave_def handleResize_def
  destroy_def cancel_pending_frame_def reset_def run_timer_callback_def run_frame_callback_def
  updateWordPositions_def animateWord_def for_each_word_def update_span_def truthy_def
  requestAnimationFrame_def cancelAnimationFrame_def setTimeout_def clearTimeout_def
  shouldInitialize_def cacheBoundingRects_def element_text_def node_text_def
  set_element_text_def mouse_moves_def Let_def

lemma demo_constructed:
  "new_MagneticHeroText ''.hero-title'' no_options demo_page = Inr (demo_state, demo_active_page)"
  by (simp add: demo_state_def demo_active_page_def demo_page_def
      default_options_def origin_rect_def second_rect_def construct_defs)

lemma demo_world_eq: "demo_world = (demo_state, demo_active_page)"
  by (simp add: demo_world_def demo_constructed)

lemma demo_page_facts:
  "shouldInitialize demo_page" "selectorMatch demo_page = QElement"
  "element_text demo_page = ''Hello World''"
  by (simp_all add: demo_page_def shouldInitialize_def element_text_def node_text_def)

lemma demo_state_simps:
  "opts demo_state = default_options" "words demo_state = [0, 2]"
  "wordRects demo_state = [origin_rect, second_rect]" "rafId demo_state = None"
  "isActive demo_state = False" "element demo_state = Some Container"
  "resizeTimeout demo_state = None"
  by (simp_all add: demo_state_def)

lemma resetDuration_default: "resetDuration default_options = 300"
  by (simp add: default_options_def make_options_def no_options_def spread_def num_or_def)

subsection \<open>Teardown\<close>

text \<open>
  The first teardown is right. As long as no event has torn the instance down, the
  words' texts joined with single spaces are the container's original text, and
  \<open>destroy\<close>, or any event that tears the instance down, replaces the spans by one text
  node holding that text (by nothing when the text is empty) and removes the class.
\<close>

lemma first_teardown_restores_text:
  assumes "shouldInitialize b" and "selectorMatch b = QElement"
    and "new_MagneticHeroText sel raw b = Inr w0"
    and "words (fst (run evs w0)) \<noteq> []"
  shows "join_with '' '' (word_texts (run evs w0)) = element_text b"
    and "childNodes (snd (destroy (run evs w0))) =
           (if element_text b = [] then [] else [TextNode (element_text b)])"
    and "\<not> magneticEnabled (snd (destroy (run evs w0)))"
    and "words (fst (dispatch ev (run evs w0))) = [] \<Longrightarrow>
           childNodes (snd (dispatch ev (run evs w0))) =
             (if element_text b = [] then [] else [TextNode (element_text b)])
           \<and> \<not> magneticEnabled (snd (dispatch ev (run evs w0)))"
proof -
  let ?w = "run evs w0"
  let ?t = "element_text b"
  from init_result [OF assms(1,2), of sel raw] assms(3)
  have el: "element (fst w0) = Some Container"
    and tx: "word_texts w0 = split_on CHR '' '' ?t"
    and v: "\<forall>r \<in> set (words (fst w0)). r < length (spans (snd w0))"
    by auto
  have j: "join_with '' '' (word_texts w0) = ?t"
    using join_split [of "CHR '' ''" ?t] by (simp add: tx)
  have s: "same_text w0 ?w" by (rule run_same_text [OF assms(4)])
  have restored: "childNodes (snd (destroy w1)) = (if ?t = [] then [] else [TextNode ?t])
      \<and> \<not> magneticEnabled (snd (destroy w1))" if "same_text ?w w1" for w1
  proof -
    from same_text_trans [OF s that] have s1: "same_text w0 w1" .
    then have e1: "element (fst w1) = Some Container" using el by (simp add: same_text_def)
    have "join_with '' '' (word_texts w1) = ?t"
      using same_text_word_texts [OF s1 v] j by simp
    with destroy_restores(1,2) [OF e1] show ?thesis by simp
  qed
  show "join_with '' '' (word_texts ?w) = ?t"
    using same_text_word_texts [OF s v] j by simp
  from restored [OF same_text_refl]
  show "childNodes (snd (destroy ?w)) = (if ?t = [] then [] else [TextNode ?t])"
    and "\<not> magneticEnabled (snd (destroy ?w))"
    by simp_all
  show "childNodes (snd (dispatch ev ?w)) = (if ?t = [] then [] else [TextNode ?t])
      \<and> \<not> magneticEnabled (snd (dispatch ev ?w))"
    if gone: "words (fst (dispatch ev ?w)) = []"
  proof -
    from dispatch_text [of ?w ev] show ?thesis
    proof
      assume "same_text ?w (dispatch ev ?w)"
      with gone assms(4) show ?thesis by (simp add: same_text_def)
    next
      assume "\<exists>w1. same_text ?w w1 \<and> dispatch ev ?w = destroy w1"
      with restored show ?thesis by auto
    qed
  qed
qed

text \<open>
  Claim C3, evaluated on the code. On the demo page the window is narrowed to 1024 pixels
  and a resize event arrives; when the debounce timer fires the gate fails and the
  instance tears itself down: the container holds the text node \<open>Hello World\<close> again
  and the words are cleared, but \<open>this.element\<close> is still set. A call of \<open>destroy()\<close>
  after this sequence (or a later change to reduced motion, whose listener is never
  removed) joins the empty words array and assigns the empty string: the container is
  left without text.
\<close>

theorem second_destroy_wipes_text:
  "childNodes (snd (run [ViewportWidth 1024, Resize, TimerFires 1] demo_world))
     = [TextNode ''Hello World'']
   \<and> \<not> magneticEnabled (snd (run [ViewportWidth 1024, Resize, TimerFires 1] demo_world))
   \<and> words (fst (run [ViewportWidth 1024, Resize, TimerFires 1] demo_world)) = []
   \<and> element (fst (run [ViewportWidth 1024, Resize, TimerFires 1] demo_world)) = Some Container
   \<and> childNodes (snd (destroy (run [ViewportWidth 1024, Resize, TimerFires 1] demo_world))) = []
   \<and> element_text (snd (destroy (run [ViewportWidth 1024, Resize, TimerFires 1] demo_world))) = []
   \<and> element_text (snd (run [ViewportWidth 1024, Resize, TimerFires 1, MotionChange True]
        demo_world)) = []"
  by (simp add: demo_world_eq run_Cons run_Nil demo_state_def demo_active_page_def demo_page_def
      handler_defs)

subsection \<open>The throttle\<close>

lemma throttle_okI:
  assumes "length (wordRects this) = length (words this)" and "distinct (words this)"
    and "\<forall>r \<in> set (words this). r < length (spans b)"
    and "(rafId this = None \<and> animationFrames b = [])
       \<or> (\<exists>h x y. rafId this = Some (Suc h) \<and> animationFrames b = [(Suc h, FrameUpdate x y)])"
  shows "throttle_ok (this, b)"
  using assms by (simp add: throttle_ok_def)

lemma throttle_okD:
  assumes "throttle_ok (this, b)"
  shows "length (wordRects this) = length (words this)" and "distinct (words this)"
    and "\<forall>r \<in> set (words this). r < length (spans b)"
    and "(rafId this = None \<and> animationFrames b = [])
       \<or> (\<exists>h x y. rafId this = Some (Suc h) \<and> animationFrames b = [(Suc h, FrameUpdate x y)])"
  using assms by (simp_all add: throttle_ok_def)

lemma handleMouseMove_pending:
  "rafId this = Some (Suc h) \<Longrightarrow> handleMouseMove x y (this, b) = (this, b)"
  by (simp add: handleMouseMove_def truthy_def)

lemma handleMouseMove_idle:
  assumes "rafId this = None" and "animationFrames b = []"
  shows "\<exists>ss act. handleMouseMove x y (this, b) =
           (this\<lparr> rafId := Some (Suc (rafCounter b)), isActive := act \<rparr>,
            b\<lparr> rafCounter := Suc (rafCounter b),
               animationFrames := [(Suc (rafCounter b), FrameUpdate x y)],
               spans := ss \<rparr>)
         \<and> length ss = length (spans b)"
proof (cases "isActive this")
  case True
  have "handleMouseMove x y (this, b) =
          (this\<lparr> rafId := Some (Suc (rafCounter b)), isActive := True \<rparr>,
           b\<lparr> rafCounter := Suc (rafCounter b),
              animationFrames := [(Suc (rafCounter b), FrameUpdate x y)],
              spans := spans b \<rparr>)"
    using assms True
    by (cases this) (simp add: handleMouseMove_def truthy_def requestAnimationFrame_def Let_def)
  then show ?thesis by blast
next
  case False
  let ?b1 = "b\<lparr> rafCounter := Suc (rafCounter b),
      animationFrames := [(Suc (rafCounter b), FrameUpdate x y)] \<rparr>"
  from for_each_word_spans [of "\<lambda>e. e\<lparr> activeClass := True \<rparr>" "words this" ?b1]
  obtain ss where ss: "for_each_word (\<lambda>e. e\<lparr> activeClass := True \<rparr>) (words this) ?b1 = ?b1\<lparr> spans := ss \<rparr>"
    "length ss = length (spans ?b1)"
    by blast
  have "handleMouseMove x y (this, b) =
          (this\<lparr> rafId := Some (Suc (rafCounter b)), isActive := True \<rparr>, ?b1\<lparr> spans := ss \<rparr>)"
    using assms False ss(1)
    by (simp add: handleMouseMove_def truthy_def requestAnimationFrame_def Let_def)
  with ss(2) show ?thesis by auto
qed

lemma handleMouseMove_throttle:
  assumes "throttle_ok w"
  shows "throttle_ok (handleMouseMove x y w)"
proof (cases w)
  case (Pair this b)
  note t = throttle_okD [OF assms [unfolded Pair]]
  from t(4) show ?thesis
  proof
    assume idle: "rafId this = None \<and> animationFrames b = []"
    from idle have a: "rafId this = None" and q: "animationFrames b = []" by simp_all
    from handleMouseMove_idle [OF a q, of x y] obtain ss act where
      "handleMouseMove x y (this, b) =
           (this\<lparr> rafId := Some (Suc (rafCounter b)), isActive := act \<rparr>,
            b\<lparr> rafCounter := Suc (rafCounter b),
               animationFrames := [(Suc (rafCounter b), FrameUpdate x y)],
               spans := ss \<rparr>)" "length ss = length (spans b)"
      by blast
    then show ?thesis using Pair t(1,2,3) by (simp add: throttle_ok_def)
  next
    assume "\<exists>h x y. rafId this = Some (Suc h) \<and> animationFrames b = [(Suc h, FrameUpdate x y)]"
    then obtain h where "rafId this = Some (Suc h)" by blast
    from handleMouseMove_pending [OF this] assms Pair show ?thesis by simp
  qed
qed

lemma cancel_pending_frame_throttle:
  assumes "throttle_ok (this, b)"
  shows "cancel_pending_frame (this, b) = (this\<lparr> rafId := None \<rparr>, b\<lparr> animationFrames := [] \<rparr>)"
proof -
  note t = throttle_okD [OF assms]
  from t(4) show ?thesis
  proof
    assume "rafId this = None \<and> animationFrames b = []"
    then show ?thesis by (cases this, cases b) (simp add: cancel_pending_frame_def)
  next
    assume "\<exists>h x y. rafId this = Some (Suc h) \<and> animationFrames b = [(Suc h, FrameUpdate x y)]"
    then show ?thesis
      by (auto simp add: cancel_pending_frame_def truthy_def cancelAnimationFrame_def)
  qed
qed

lemma reset_throttle:
  assumes "throttle_ok w"
  shows "throttle_ok (reset w)"
proof (cases w)
  case (Pair this b)
  note t = throttle_okD [OF assms [unfolded Pair]]
  from for_each_word_spans [of "\<lambda>e. e\<lparr> transform := Translate3d_origin \<rparr>" "words this" b]
  obtain ss where "for_each_word (\<lambda>e. e\<lparr> transform := Translate3d_origin \<rparr>) (words this) b = b\<lparr> spans := ss \<rparr>"
    "length ss = length (spans b)"
    by blast
  then show ?thesis using Pair t
    by (simp add: reset_def throttle_ok_def setTimeout_def Let_def)
qed

lemma handleMouseLeave_throttle:
  assumes "throttle_ok w"
  shows "throttle_ok (handleMouseLeave w)"
proof (cases w)
  case (Pair this b)
  note t = throttle_okD [OF assms [unfolded Pair]]
  have "throttle_ok (this\<lparr> rafId := None \<rparr>, b\<lparr> animationFrames := [] \<rparr>)"
    using t(1,2,3) by (simp add: throttle_ok_def)
  then show ?thesis using Pair cancel_pending_frame_throttle [OF assms [unfolded Pair]]
    by (simp add: handleMouseLeave_def reset_throttle)
qed

lemma handleResize_throttle:
  assumes "throttle_ok w"
  shows "throttle_ok (handleResize w)"
  using assms
  by (cases w)
    (simp add: handleResize_def throttle_ok_def setTimeout_def clearTimeout_def Let_def
      split: option.splits)

lemma destroy_throttle:
  assumes "throttle_ok w"
  shows "throttle_ok (destroy w)"
proof (cases w)
  case (Pair this b)
  from cancel_pending_frame_throttle [OF assms [unfolded Pair]] Pair
  show ?thesis
    by (simp add: destroy_def throttle_ok_def Let_def set_element_text_def split: option.splits)
qed

lemma cacheBoundingRects_throttle:
  assumes "throttle_ok w"
  shows "throttle_ok (cacheBoundingRects w)"
  using assms by (cases w) (simp add: cacheBoundingRects_def throttle_ok_def)

lemma run_timer_callback_throttle:
  assumes "throttle_ok w"
  shows "throttle_ok (run_timer_callback cb w)"
proof (cases w)
  case (Pair this b)
  note t = throttle_okD [OF assms [unfolded Pair]]
  from for_each_word_spans [of "\<lambda>e. e\<lparr> activeClass := False \<rparr>" "words this" b]
  obtain ss where ss: "for_each_word (\<lambda>e. e\<lparr> activeClass := False \<rparr>) (words this) b = b\<lparr> spans := ss \<rparr>"
    "length ss = length (spans b)"
    by blast
  show ?thesis
  proof (cases cb)
    case ResizeSettle
    then show ?thesis
      using Pair destroy_throttle [OF assms] cacheBoundingRects_throttle [OF assms]
      by (simp add: run_timer_callback_def)
  next
    case ActiveClear
    then show ?thesis using Pair t ss by (simp add: run_timer_callback_def throttle_ok_def)
  qed
qed

text \<open>What a frame boundary does to a state of the throttle.\<close>

lemma frame_idle:
  assumes "rafId this = None" and "animationFrames b = []"
  shows "dispatch AnimationFrame (this, b) = (this, b)"
  using assms by (cases b) (simp add: dispatch_def)

lemma frame_pending:
  assumes "animationFrames b = [(h, FrameUpdate x y)]"
    and "length (wordRects this) = length (words this)"
  shows "fst (updateWordPositions (x + scrollX b) (y + scrollY b)
            (this, b\<lparr> animationFrames := [] \<rparr>)) = None"
    and "dispatch AnimationFrame (this, b) =
          (this\<lparr> rafId := None \<rparr>,
           snd (updateWordPositions (x + scrollX b) (y + scrollY b)
                 (this, b\<lparr> animationFrames := [] \<rparr>)))"
proof -
  let ?u = "updateWordPositions (x + scrollX b) (y + scrollY b) (this, b\<lparr> animationFrames := [] \<rparr>)"
  show ok: "fst ?u = None"
    using assms(2) by (simp add: updateWordPositions_def update_words_from_ok)
  then obtain b1 where u: "?u = (None, b1)" by (cases ?u) simp
  then show "dispatch AnimationFrame (this, b) = (this\<lparr> rafId := None \<rparr>, snd ?u)"
    using assms(1) by (simp add: dispatch_def run_frame_callback_def)
qed

lemma frame_throttle:
  assumes "throttle_ok w"
  shows "throttle_ok (dispatch AnimationFrame w)
       \<and> rafId (fst (dispatch AnimationFrame w)) = None
       \<and> animationFrames (snd (dispatch AnimationFrame w)) = []
       \<and> mousemoveListener (snd (dispatch AnimationFrame w)) = mousemoveListener (snd w)"
proof (cases w)
  case (Pair this b)
  note t = throttle_okD [OF assms [unfolded Pair]]
  from t(4) show ?thesis
  proof
    assume idle: "rafId this = None \<and> animationFrames b = []"
    then have "dispatch AnimationFrame (this, b) = (this, b)" by (simp add: frame_idle)
    then show ?thesis using Pair assms idle by simp
  next
    assume "\<exists>h x y. rafId this = Some (Suc h) \<and> animationFrames b = [(Suc h, FrameUpdate x y)]"
    then obtain h x y where q: "animationFrames b = [(Suc h, FrameUpdate x y)]" by blast
    let ?b0 = "b\<lparr> animationFrames := [] \<rparr>"
    from update_words_from_spans [of "opts this" "wordRects this" "x + scrollX b" "y + scrollY b" 0 "words this" ?b0]
    obtain ss where ss: "snd (updateWordPositions (x + scrollX b) (y + scrollY b) (this, ?b0)) = ?b0\<lparr> spans := ss \<rparr>"
      "length ss = length (spans b)"
      by (auto simp add: updateWordPositions_def)
    from frame_pending(2) [OF q t(1)] ss Pair t(1,2,3) show ?thesis
      by (simp add: throttle_ok_def)
  qed
qed

lemma dispatch_throttle:
  assumes "throttle_ok w"
  shows "throttle_ok (dispatch ev w)"
proof (cases w)
  case (Pair this b)
  show ?thesis
  proof (cases ev)
    case (MouseMove x y)
    then show ?thesis using Pair assms handleMouseMove_throttle [OF assms, of x y]
      by (simp add: dispatch_def)
  next
    case MouseLeave
    then show ?thesis using Pair assms handleMouseLeave_throttle [OF assms]
      by (simp add: dispatch_def)
  next
    case Resize
    then show ?thesis using Pair assms handleResize_throttle [OF assms]
      by (simp add: dispatch_def)
  next
    case (MotionChange m)
    have "throttle_ok (this, b\<lparr> prefersReducedMotion := m \<rparr>)"
      using assms Pair by (simp add: throttle_ok_def)
    from this destroy_throttle [OF this] show ?thesis using Pair MotionChange
      by (auto simp add: dispatch_def Let_def)
  next
    case AnimationFrame
    then show ?thesis using frame_throttle [OF assms] by simp
  next
    case (TimerFires h)
    have "throttle_ok (this, b\<lparr> timers := filter (\<lambda>(k, d, cb). k \<noteq> h) (timers b) \<rparr>)"
      using assms Pair by (simp add: throttle_ok_def)
    then show ?thesis using Pair TimerFires assms run_timer_callback_throttle
      by (simp add: dispatch_def split: option.splits)
  next
    case (Scroll x y)
    then show ?thesis using Pair assms by (simp add: dispatch_def throttle_ok_def)
  next
    case (ViewportWidth n)
    then show ?thesis using Pair assms by (simp add: dispatch_def throttle_ok_def)
  next
    case (Relayout f)
    then show ?thesis using Pair assms by (simp add: dispatch_def throttle_ok_def)
  next
    case CallDestroy
    then show ?thesis using Pair destroy_throttle [OF assms] by (simp add: dispatch_def)
  qed
qed

lemma run_throttle: "throttle_ok w \<Longrightarrow> throttle_ok (run evs w)"
  by (induction evs arbitrary: w) (simp_all add: run_def dispatch_throttle)

lemma constructed_throttle:
  assumes "fresh b" and "new_MagneticHeroText sel raw b = Inr w0"
  shows "throttle_ok w0"
proof (cases "shouldInitialize b")
  case False
  then have "w0 = (initial_state sel raw, b)"
    using assms(2) by (simp add: new_MagneticHeroText_def init_def)
  then show ?thesis using assms(1) by (simp add: throttle_ok_def initial_state_def fresh_def)
next
  case True
  show ?thesis
  proof (cases "selectorMatch b")
    case QSyntaxError
    with True assms(2) show ?thesis by (simp add: new_MagneticHeroText_def init_def)
  next
    case QNull
    with True assms(2)
    have "w0 = (initial_state sel raw, b\<lparr> console := console b @ [not_found_warning sel] \<rparr>)"
      by (simp add: new_MagneticHeroText_def init_def initial_state_def)
    then show ?thesis using assms(1) by (simp add: throttle_ok_def initial_state_def fresh_def)
  next
    case QElement
    from init_result [OF True QElement, of sel raw] assms
    show ?thesis by (auto simp add: throttle_ok_def fresh_def)
  qed
qed

lemma moves_while_pending:
  "rafId (fst w) = Some (Suc h) \<Longrightarrow> run (mouse_moves ps) w = w"
proof (induction ps)
  case Nil
  show ?case by (simp add: mouse_moves_def run_def)
next
  case (Cons p ps)
  obtain x y where p: "p = (x, y)" by (cases p)
  obtain this b where w: "w = (this, b)" by (cases w)
  have "dispatch (MouseMove x y) w = w"
    using Cons.prems w by (simp add: dispatch_def handleMouseMove_pending)
  then have "run (mouse_moves (p # ps)) w = run (mouse_moves ps) w"
    by (simp add: mouse_moves_def run_def p)
  with Cons show ?case by simp
qed

subsection \<open>One update per frame\<close>

text \<open>
  Claim C1, as the code has it. After a frame boundary, a burst of one or more
  pointer-move events that reach the handler leaves exactly one frame callback pending,
  and it holds the coordinates of the first event of the burst: the later events find
  \<open>rafId\<close> set and are dropped. At the next frame boundary the callback runs once,
  does not throw, clears \<open>rafId\<close>, and gives every word the displacement computed
  from the first event's position (plus the scroll offsets at that moment).
\<close>

theorem one_update_per_frame:
  assumes "fresh b" and "new_MagneticHeroText sel raw b = Inr w0"
    and "mousemoveListener (snd (run evs w0))"
  shows "let wf = dispatch AnimationFrame (run evs w0);
             w1 = run (mouse_moves ((x1, y1) # rest)) wf;
             mouseX = x1 + scrollX (snd w1);
             mouseY = y1 + scrollY (snd w1);
             update = updateWordPositions mouseX mouseY (fst w1, (snd w1)\<lparr> animationFrames := [] \<rparr>)
         in animationFrames (snd w1) = [(Suc (rafCounter (snd wf)), FrameUpdate x1 y1)]
          \<and> fst update = None
          \<and> dispatch AnimationFrame w1 = ((fst w1)\<lparr> rafId := None \<rparr>, snd update)
          \<and> (\<forall>i < length (words (fst w1)).
                transform (spans (snd (dispatch AnimationFrame w1)) ! (words (fst w1) ! i))
                  = Translate3d_px
                      (translateX (calculateMagneticForce (opts (fst w1)) (wordRects (fst w1) ! i) mouseX mouseY))
                      (translateY (calculateMagneticForce (opts (fst w1)) (wordRects (fst w1) ! i) mouseX mouseY)))"
proof -
  let ?w = "run evs w0"
  let ?wf = "dispatch AnimationFrame ?w"
  have "throttle_ok ?w" by (rule run_throttle [OF constructed_throttle [OF assms(1,2)]])
  from frame_throttle [OF this] assms(3)
  have tf: "throttle_ok ?wf" and idle: "rafId (fst ?wf) = None" "animationFrames (snd ?wf) = []"
    and l: "mousemoveListener (snd ?wf)"
    by simp_all
  obtain this bf where wf: "?wf = (this, bf)" by (cases ?wf)
  note t = throttle_okD [OF tf [unfolded wf]]
  from idle wf have a: "rafId this = None" and q: "animationFrames bf = []" by simp_all
  from handleMouseMove_idle [OF a q, of x1 y1] obtain ss act where
    m: "handleMouseMove x1 y1 (this, bf) =
           (this\<lparr> rafId := Some (Suc (rafCounter bf)), isActive := act \<rparr>,
            bf\<lparr> rafCounter := Suc (rafCounter bf),
                animationFrames := [(Suc (rafCounter bf), FrameUpdate x1 y1)],
                spans := ss \<rparr>)" and ls: "length ss = length (spans bf)"
    by blast
  let ?this1 = "this\<lparr> rafId := Some (Suc (rafCounter bf)), isActive := act \<rparr>"
  let ?b1 = "bf\<lparr> rafCounter := Suc (rafCounter bf),
                animationFrames := [(Suc (rafCounter bf), FrameUpdate x1 y1)], spans := ss \<rparr>"
  have first: "dispatch (MouseMove x1 y1) ?wf = (?this1, ?b1)"
    using l wf m by (simp add: dispatch_def)
  have "run (mouse_moves ((x1, y1) # rest)) ?wf
      = run (mouse_moves rest) (dispatch (MouseMove x1 y1) ?wf)"
    by (simp add: mouse_moves_def run_Cons)
  also have "\<dots> = run (mouse_moves rest) (?this1, ?b1)" by (simp only: first)
  also have "\<dots> = (?this1, ?b1)" by (rule moves_while_pending [of _ "rafCounter bf"]) simp
  finally have w1: "run (mouse_moves ((x1, y1) # rest)) ?wf = (?this1, ?b1)" .
  let ?mx = "x1 + scrollX ?b1" and ?my = "y1 + scrollY ?b1"
  let ?u = "updateWordPositions ?mx ?my (?this1, ?b1\<lparr> animationFrames := [] \<rparr>)"
  have q1: "animationFrames ?b1 = [(Suc (rafCounter bf), FrameUpdate x1 y1)]" by simp
  have len: "length (wordRects ?this1) = length (words ?this1)" using t(1) by simp
  note fp = frame_pending [OF q1 len]
  have 1: "animationFrames ?b1 = [(Suc (rafCounter (snd ?wf)), FrameUpdate x1 y1)]"
    by (simp add: wf)
  have 3: "dispatch AnimationFrame (?this1, ?b1) = (?this1\<lparr> rafId := None \<rparr>, snd ?u)"
    using fp(2) by simp
  have pre: "0 + length (words this) \<le> length (wordRects this)" "distinct (words this)"
    "\<forall>r \<in> set (words this). r < length (spans (?b1\<lparr> animationFrames := [] \<rparr>))"
    using t(1,2,3) ls by simp_all
  from update_words_from_transform [OF pre, of "opts this" ?mx ?my]
  have 4: "\<forall>i < length (words ?this1).
      transform (spans (snd ?u) ! (words ?this1 ! i))
        = Translate3d_px
            (translateX (calculateMagneticForce (opts ?this1) (wordRects ?this1 ! i) ?mx ?my))
            (translateY (calculateMagneticForce (opts ?this1) (wordRects ?this1 ! i) ?mx ?my))"
    by (simp add: updateWordPositions_def)
  show ?thesis
    unfolding Let_def w1 fst_conv snd_conv 3
    using 1 fp(1) 4 by (simp only: fst_conv snd_conv simp_thms)
qed

lemma demo_after_moves:
  "run (mouse_moves [(10, 0), (20, 0)]) (dispatch AnimationFrame (run [] demo_world)) =
     (demo_state\<lparr> rafId := Some 1, isActive := True \<rparr>,
      demo_active_page\<lparr> rafCounter := 1, animationFrames := [(1, FrameUpdate 10 0)],
        spans := [\<lparr> className = ''word-magnetic'', textContent = ''Hello'',
                    activeClass = True, transform = Unset \<rparr>,
                  \<lparr> className = ''word-space'', textContent = '' '',
                    activeClass = False, transform = Unset \<rparr>,
                  \<lparr> className = ''word-magnetic'', textContent = ''World'',
                    activeClass = True, transform = Unset \<rparr>] \<rparr>)"
  by (simp add: demo_world_eq run_Cons run_Nil demo_state_def demo_active_page_def demo_page_def
      handler_defs)

lemma demo_after_frame:
  "transform (spans (snd (dispatch AnimationFrame
     (run (mouse_moves [(10, 0), (20, 0)]) (dispatch AnimationFrame (run [] demo_world))))) ! 0)
     = Translate3d_px (95 / 4) 0"
  unfolding demo_after_moves
  by (simp add: demo_state_def demo_active_page_def demo_page_def
      handler_defs force_origin_axis default_options_simps)

theorem one_update_per_frame_witness:
  "fresh demo_page
   \<and> new_MagneticHeroText ''.hero-title'' no_options demo_page = Inr demo_world
   \<and> mousemoveListener (snd (run [] demo_world))
   \<and> animationFrames (snd (run (mouse_moves [(10, 0), (20, 0)])
        (dispatch AnimationFrame (run [] demo_world)))) = [(1, FrameUpdate 10 0)]
   \<and> transform (spans (snd (dispatch AnimationFrame
        (run (mouse_moves [(10, 0), (20, 0)]) (dispatch AnimationFrame (run [] demo_world))))) ! 0)
       = Translate3d_px (95 / 4) 0"
proof -
  have h1: "fresh demo_page" by (rule fresh_demo_page)
  have h2: "new_MagneticHeroText ''.hero-title'' no_options demo_page = Inr demo_world"
    by (simp add: demo_constructed demo_world_eq)
  have h3: "mousemoveListener (snd (run [] demo_world))"
    by (simp add: run_Nil demo_world_eq demo_active_page_def)
  have wf: "rafCounter (snd (dispatch AnimationFrame (run [] demo_world))) = 0"
    by (simp add: run_Nil demo_world_eq frame_idle demo_state_simps demo_active_page_def
        demo_page_def)
  note T = one_update_per_frame [OF h1 h2 h3, of 10 0 "[(20, 0)]", unfolded Let_def wf]
  from T have 1: "animationFrames (snd (run (mouse_moves [(10, 0), (20, 0)])
        (dispatch AnimationFrame (run [] demo_world)))) = [(1, FrameUpdate 10 0)]"
    by simp
  from h1 h2 h3 1 show ?thesis by (simp add: demo_after_frame)
qed

text \<open>
  On the demo page, after the moves to \<open>(10, 0)\<close> and then \<open>(20, 0)\<close>, the frame gives the
  first word the displacement for \<open>(10, 0)\<close>, not the one for the latest position.
\<close>

theorem latest_position_counterexample:
  "transform (spans (snd (dispatch AnimationFrame
      (run (mouse_moves [(10, 0), (20, 0)]) (dispatch AnimationFrame (run [] demo_world))))) !
        (words (fst demo_world) ! 0))
   \<noteq> Translate3d_px
       (translateX (calculateMagneticForce (opts (fst demo_world)) (wordRects (fst demo_world) ! 0)
          (20 + scrollX (snd demo_world)) (0 + scrollY (snd demo_world))))
       (translateY (calculateMagneticForce (opts (fst demo_world)) (wordRects (fst demo_world) ! 0)
          (20 + scrollX (snd demo_world)) (0 + scrollY (snd demo_world))))"
proof -
  have a: "words (fst demo_world) ! 0 = 0" "opts (fst demo_world) = default_options"
    "wordRects (fst demo_world) ! 0 = origin_rect"
    "scrollX (snd demo_world) = 0" "scrollY (snd demo_world) = 0"
    by (simp_all add: demo_world_eq demo_state_simps demo_active_page_def demo_page_def)
  show ?thesis
    unfolding a demo_after_frame by (simp add: force_origin_axis default_options_simps)
qed

subsection \<open>A timer that outlives the instance\<close>

text \<open>
  Claim C2, evaluated on the code. On the demo page a resize starts the debounce timer,
  and a change to reduced motion then calls \<open>destroy\<close>: the text is restored and the
  words are cleared, but the timer is still pending. When it fires, the gate fails and
  \<open>destroy\<close> runs again on the cleared words, and the container's text becomes empty.
  Likewise the timer that clears the active flag is still pending after a move, a leave
  and \<open>destroy\<close>.
\<close>

theorem stale_resize_timer_wipes_text:
  "words (fst (run [Resize, MotionChange True] demo_world)) = []
   \<and> element_text (snd (run [Resize, MotionChange True] demo_world)) = ''Hello World''
   \<and> timers (snd (run [Resize, MotionChange True] demo_world)) = [(1, 150, ResizeSettle)]
   \<and> element_text (snd (run [Resize, MotionChange True, TimerFires 1] demo_world)) = []
   \<and> timers (snd (run [MouseMove 10 0, MouseLeave, CallDestroy] demo_world))
       = [(1, 300, ActiveClear)]"
  by (simp add: demo_world_eq run_Cons run_Nil demo_state_def demo_active_page_def demo_page_def
      resetDuration_default handler_defs)

end
